theory Spec2Isabelle
  imports Complex_Main "HOL-Library.Monad_Syntax"
begin

section \<open>Numbers and vectors\<close>

text \<open>
  The simulator computes in C++ \<^verbatim>\<open>float\<close>. The embedding uses \<^typ>\<open>real\<close>: a float
  literal is the decimal number it is written as, comparison and negation are the exact
  ones, and arithmetic is unrounded. Non-finite floats (NaN, infinities) have no
  counterpart; where the source divides, a statement about the quotient says when the
  divisor is not zero.

  \<^verbatim>\<open>Vector3f\<close> is a triple, \<^verbatim>\<open>VectorXf\<close> a list. Reading or writing a \<^verbatim>\<open>VectorXf\<close>
  outside its size trips Eigen's index assertion, which ends the program: the model
  returns \<^term>\<open>None\<close> there.
\<close>

type_synonym Vector3f = "real \<times> real \<times> real"
type_synonym VectorXf = "real list"

fun at0 :: "Vector3f \<Rightarrow> real" where "at0 (x, y, z) = x"
fun at1 :: "Vector3f \<Rightarrow> real" where "at1 (x, y, z) = y"
fun at2 :: "Vector3f \<Rightarrow> real" where "at2 (x, y, z) = z"

fun vec3_add :: "Vector3f \<Rightarrow> Vector3f \<Rightarrow> Vector3f" where
  "vec3_add (a0, a1, a2) (b0, b1, b2) = (a0 + b0, a1 + b1, a2 + b2)"

fun vec3_sub :: "Vector3f \<Rightarrow> Vector3f \<Rightarrow> Vector3f" where
  "vec3_sub (a0, a1, a2) (b0, b1, b2) = (a0 - b0, a1 - b1, a2 - b2)"

fun vec3_scale :: "real \<Rightarrow> Vector3f \<Rightarrow> Vector3f" where
  "vec3_scale c (a0, a1, a2) = (c * a0, c * a1, c * a2)"

fun vec3_times :: "Vector3f \<Rightarrow> real \<Rightarrow> Vector3f" where
  "vec3_times (a0, a1, a2) c = (a0 * c, a1 * c, a2 * c)"

fun vec3_div :: "Vector3f \<Rightarrow> real \<Rightarrow> Vector3f" where
  "vec3_div (a0, a1, a2) c = (a0 / c, a1 / c, a2 / c)"

fun vec3_norm :: "Vector3f \<Rightarrow> real" where
  "vec3_norm (a0, a1, a2) = sqrt (a0 * a0 + a1 * a1 + a2 * a2)"

definition vget :: "VectorXf \<Rightarrow> nat \<Rightarrow> real option" where
  "vget v k = (if k < length v then Some (v ! k) else None)"

definition vset :: "VectorXf \<Rightarrow> nat \<Rightarrow> real \<Rightarrow> VectorXf option" where
  "vset v k x = (if k < length v then Some (v[k := x]) else None)"

definition vecX_sub :: "VectorXf \<Rightarrow> VectorXf \<Rightarrow> VectorXf option" where
  "vecX_sub a b = (if length a = length b then Some (map2 (-) a b) else None)"

definition vecX_norm :: "VectorXf \<Rightarrow> real" where
  "vecX_norm v = sqrt (sum_list (map (\<lambda>x. x * x) v))"

text \<open>A counted loop whose body can end the program.\<close>

fun for_loop :: "('i \<Rightarrow> 'a \<Rightarrow> 'a option) \<Rightarrow> 'i list \<Rightarrow> 'a \<Rightarrow> 'a option" where
  "for_loop body [] s = Some s"
| "for_loop body (i # is) s = (case body i s of None \<Rightarrow> None | Some s' \<Rightarrow> for_loop body is s')"

section \<open>Particles and the System\<close>

text \<open>
  The System holds \<^verbatim>\<open>Particle*\<close> pointers, and forces hold pointers to the same
  objects, so particles live in a store indexed by address. The record has the members
  that the functions below read or write: the particles, the forces (of any type \<open>'f\<close>),
  the clock and the step size. The fields, the neighbour grid and the Solver are passed
  to the functions that call them.
\<close>

type_synonym addr = nat

record Particle =
  position :: Vector3f
  velocity :: Vector3f
  force :: Vector3f
  mass :: real
  density :: real
  pressure :: real
  movable :: bool

record 'f System =
  particles :: "addr list"
  forces :: "'f list"
  time :: real
  dt :: real
  heap :: "addr \<Rightarrow> Particle"

section \<open>The state vector\<close>

text \<open>
  A fresh \<^verbatim>\<open>VectorXf\<close> of a given size holds no defined values; the model fills it with
  zeros, and the loops of \<^verbatim>\<open>getState\<close> and \<^verbatim>\<open>computeDerivative\<close> write every slot. The
  one-argument \<^verbatim>\<open>setState\<close> keeps its name, the two-argument one is \<open>setState2\<close>.
\<close>

definition getDim :: "'f System \<Rightarrow> nat" where
  "getDim s = length (particles s) * 3 * 2"

definition getState_body :: "'f System \<Rightarrow> nat \<Rightarrow> VectorXf \<Rightarrow> VectorXf" where
  "getState_body s i r =
     (let p = heap s (particles s ! i) in
      r[i * 6 + 0 := at0 (position p),
        i * 6 + 1 := at1 (position p),
        i * 6 + 2 := at2 (position p),
        i * 6 + 3 := at0 (velocity p),
        i * 6 + 4 := at1 (velocity p),
        i * 6 + 5 := at2 (velocity p)])"

definition getState :: "'f System \<Rightarrow> VectorXf" where
  "getState s = fold (getState_body s) [0..<length (particles s)] (replicate (getDim s) 0)"

definition getTime :: "'f System \<Rightarrow> real" where
  "getTime s = time s"

definition setState_body :: "VectorXf \<Rightarrow> nat \<Rightarrow> 'f System \<Rightarrow> 'f System option" where
  "setState_body src i s =
     (let a = particles s ! i in
      if movable (heap s a) then do {
        x0 \<leftarrow> vget src (i * 6 + 0);
        x1 \<leftarrow> vget src (i * 6 + 1);
        x2 \<leftarrow> vget src (i * 6 + 2);
        x3 \<leftarrow> vget src (i * 6 + 3);
        x4 \<leftarrow> vget src (i * 6 + 4);
        x5 \<leftarrow> vget src (i * 6 + 5);
        Some (s\<lparr>heap := (heap s)(a := (heap s a)\<lparr>position := (x0, x1, x2), velocity := (x3, x4, x5)\<rparr>)\<rparr>)
      } else Some s)"

definition setState2 :: "'f System \<Rightarrow> VectorXf \<Rightarrow> real \<Rightarrow> 'f System option" where
  "setState2 s src t = do {
     s' \<leftarrow> for_loop (setState_body src) [0..<length (particles s)] s;
     Some (s'\<lparr>time := t\<rparr>)
   }"

definition setState :: "'f System \<Rightarrow> VectorXf \<Rightarrow> 'f System option" where
  "setState s src = setState2 s src (getTime s)"

section \<open>Derivative evaluation\<close>

text \<open>
  The Density field and the registered forces are declared outside the files at hand.
  \<^verbatim>\<open>densityField->eval(p)\<close> is a parameter that reads the System as it is at the call
  and the particle's address; \<^verbatim>\<open>f->apply(this)\<close> is a parameter that takes the force and
  the System and returns the System it leaves.
\<close>

definition clearForces_body :: "addr \<Rightarrow> 'f System \<Rightarrow> 'f System" where
  "clearForces_body p t = t\<lparr>heap := (heap t)(p := (heap t p)\<lparr>force := (0, 0, 0)\<rparr>)\<rparr>"

definition clearForces :: "'f System \<Rightarrow> 'f System" where
  "clearForces s = fold clearForces_body (particles s) s"

definition computeForces_density ::
  "('f System \<Rightarrow> addr \<Rightarrow> real) \<Rightarrow> addr \<Rightarrow> 'f System \<times> real \<Rightarrow> 'f System \<times> real" where
  "computeForces_density densityField_eval p acc =
     (case acc of (t, restDensity) \<Rightarrow>
        let t' = t\<lparr>heap := (heap t)(p := (heap t p)\<lparr>density := densityField_eval t p\<rparr>)\<rparr>
        in (t', restDensity + density (heap t' p)))"

definition computeForces_pressure :: "real \<Rightarrow> real \<Rightarrow> addr \<Rightarrow> 'f System \<Rightarrow> 'f System" where
  "computeForces_pressure k restDensity p t =
     t\<lparr>heap := (heap t)(p := (heap t p)\<lparr>pressure := k * (density (heap t p) - restDensity)\<rparr>)\<rparr>"

definition computeForces ::
  "('f System \<Rightarrow> addr \<Rightarrow> real) \<Rightarrow> ('f \<Rightarrow> 'f System \<Rightarrow> 'f System) \<Rightarrow> 'f System \<Rightarrow> 'f System" where
  "computeForces densityField_eval Force_apply s =
     (case fold (computeForces_density densityField_eval) (particles s) (s, 0) of
        (s1, restDensity0) \<Rightarrow>
          let k = 0.1;
              restDensity = restDensity0 / real (length (particles s1));
              s2 = fold (computeForces_pressure k restDensity) (particles s1) s1
          in fold Force_apply (forces s2) s2)"

definition computeDerivative_body :: "'f System \<Rightarrow> nat \<Rightarrow> VectorXf \<Rightarrow> VectorXf" where
  "computeDerivative_body s i dst =
     (let p = heap s (particles s ! i) in
      dst[i * 6 + 0 := at0 (velocity p),
          i * 6 + 1 := at1 (velocity p),
          i * 6 + 2 := at2 (velocity p),
          i * 6 + 3 := at0 (force p) / density p,
          i * 6 + 4 := at1 (force p) / density p,
          i * 6 + 5 := at2 (force p) / density p])"

definition computeDerivative :: "'f System \<Rightarrow> VectorXf" where
  "computeDerivative s =
     fold (computeDerivative_body s) [0..<length (particles s)] (replicate (getDim s) 0)"

text \<open>\<^verbatim>\<open>derivEval\<close> returns the derivative vector and leaves the System changed.\<close>

definition derivEval ::
  "('f System \<Rightarrow> addr \<Rightarrow> real) \<Rightarrow> ('f \<Rightarrow> 'f System \<Rightarrow> 'f System) \<Rightarrow> 'f System
   \<Rightarrow> VectorXf \<times> 'f System" where
  "derivEval densityField_eval Force_apply s =
     (let s1 = clearForces s;
          s2 = computeForces densityField_eval Force_apply s1
      in (computeDerivative s2, s2))"

section \<open>The step controller\<close>

text \<open>
  The Solver is a parameter: \<^verbatim>\<open>solver->simulateStep(this, h)\<close> takes the System and the
  step size and returns the System it leaves. \<^verbatim>\<open>step_adaptive\<close> is the body of
  \<^verbatim>\<open>if (adaptive)\<close>; \<^verbatim>\<open>dt\<close> is read from the System at each use, as the member is.
\<close>

definition step_adaptive ::
  "('f System \<Rightarrow> real \<Rightarrow> 'f System) \<Rightarrow> 'f System \<Rightarrow> 'f System option" where
  "step_adaptive simulateStep s = do {
     let before = getState s;
     let s1 = simulateStep s (dt s);
     let xa = getState s1;
     s2 \<leftarrow> setState s1 before;
     let s3 = simulateStep s2 (dt s2 / 2);
     let s4 = simulateStep s3 (dt s3 / 2);
     let xb = getState s4;
     d \<leftarrow> vecX_sub xa xb;
     let err = vecX_norm d;
     let s5 = (if err > 0 then s4\<lparr>dt := dt s4 * (0.001 / err) powr 0.5\<rparr> else s4);
     setState s5 before
   }"

definition step ::
  "('f System \<Rightarrow> real \<Rightarrow> 'f System) \<Rightarrow> bool \<Rightarrow> 'f System \<Rightarrow> 'f System option" where
  "step simulateStep adaptive s =
     (if adaptive then do {
        s6 \<leftarrow> step_adaptive simulateStep s;
        Some (simulateStep s6 (dt s6))
      } else Some (simulateStep s (dt s)))"

section \<open>Boundary collisions\<close>

definition checkCollisions_x_lo :: "nat \<Rightarrow> VectorXf \<Rightarrow> VectorXf option" where
  "checkCollisions_x_lo i newState = do {
     x \<leftarrow> vget newState (i * 6);
     if x < - 0.2 then do {
       v1 \<leftarrow> vset newState (i * 6) (- 0.2);
       c \<leftarrow> vget v1 (i * 6 + 3);
       if c < 0 then do { w \<leftarrow> vget v1 (i * 6 + 3); vset v1 (i * 6 + 3) (- w) } else Some v1
     } else Some newState
   }"

definition checkCollisions_x_hi :: "nat \<Rightarrow> VectorXf \<Rightarrow> VectorXf option" where
  "checkCollisions_x_hi i newState = do {
     x \<leftarrow> vget newState (i * 6);
     if x > 0.2 then do {
       v1 \<leftarrow> vset newState (i * 6) 0.2;
       c \<leftarrow> vget v1 (i * 6 + 3);
       if c > 0 then do { w \<leftarrow> vget v1 (i * 6 + 3); vset v1 (i * 6 + 3) (- w) } else Some v1
     } else Some newState
   }"

definition checkCollisions_z_lo :: "nat \<Rightarrow> VectorXf \<Rightarrow> VectorXf option" where
  "checkCollisions_z_lo i newState = do {
     z \<leftarrow> vget newState (i * 6 + 2);
     if z < - 0.2 then do {
       v1 \<leftarrow> vset newState (i * 6 + 2) (- 0.2);
       c \<leftarrow> vget v1 (i * 6 + 5);
       if c < 0 then do { w \<leftarrow> vget v1 (i * 6 + 3); vset v1 (i * 6 + 5) (- w) } else Some v1
     } else Some newState
   }"

definition checkCollisions_z_hi :: "nat \<Rightarrow> VectorXf \<Rightarrow> VectorXf option" where
  "checkCollisions_z_hi i newState = do {
     z \<leftarrow> vget newState (i * 6 + 2);
     if z > 0.2 then do {
       v1 \<leftarrow> vset newState (i * 6 + 2) 0.2;
       c \<leftarrow> vget v1 (i * 6 + 5);
       if c > 0 then do { w \<leftarrow> vget v1 (i * 6 + 3); vset v1 (i * 6 + 5) (- w) } else Some v1
     } else Some newState
   }"

definition checkCollisions_y_lo :: "nat \<Rightarrow> VectorXf \<Rightarrow> VectorXf option" where
  "checkCollisions_y_lo i newState = do {
     y \<leftarrow> vget newState (i * 6 + 1);
     if y < - 2.0 then do {
       v1 \<leftarrow> vset newState (i * 6 + 1) (- 2.0);
       c \<leftarrow> vget v1 (i * 6 + 4);
       if c < 0 then do { w \<leftarrow> vget v1 (i * 6 + 4); vset v1 (i * 6 + 4) (- w) } else Some v1
     } else Some newState
   }"

definition checkCollisions :: "'f System \<Rightarrow> VectorXf \<Rightarrow> VectorXf option" where
  "checkCollisions s newState = do {
     v1 \<leftarrow> for_loop checkCollisions_x_lo [0..<length (particles s)] newState;
     v2 \<leftarrow> for_loop checkCollisions_x_hi [0..<length (particles s)] v1;
     v3 \<leftarrow> for_loop checkCollisions_z_lo [0..<length (particles s)] v2;
     v4 \<leftarrow> for_loop checkCollisions_z_hi [0..<length (particles s)] v3;
     for_loop checkCollisions_y_lo [0..<length (particles s)] v4
   }"

section \<open>Forces\<close>

text \<open>
  A force holds its own list of target pointers. The neighbour grid's \<^verbatim>\<open>query\<close>, the
  kernel \<^verbatim>\<open>Viscosity::ddW\<close> and the Color field's \<^verbatim>\<open>dEval\<close> and \<^verbatim>\<open>ddEval\<close> are
  declared outside the files at hand and are parameters; the grid and the field belong to
  the System, so they read the System as it is at the call.
\<close>

definition ViscosityForce_term :: "(Vector3f \<Rightarrow> real) \<Rightarrow> Particle \<Rightarrow> Particle \<Rightarrow> Vector3f" where
  "ViscosityForce_term ddW p_i p_j =
     vec3_times
       (vec3_div (vec3_scale (mass p_j) (vec3_sub (velocity p_j) (velocity p_i))) (density p_j))
       (ddW (vec3_sub (position p_i) (position p_j)))"

definition ViscosityForce_body ::
  "('f System \<Rightarrow> Vector3f \<Rightarrow> addr list) \<Rightarrow> (Vector3f \<Rightarrow> real) \<Rightarrow> addr \<Rightarrow> 'f System \<Rightarrow> 'f System" where
  "ViscosityForce_body query ddW p_i s =
     (let u = 100;
          viscosityForce =
            fold (\<lambda>p_j viscosityForce. ViscosityForce_term ddW (heap s p_i) (heap s p_j))
              (query s (position (heap s p_i))) (0, 0, 0)
      in s\<lparr>heap := (heap s)(p_i := (heap s p_i)\<lparr>force :=
            vec3_add (force (heap s p_i)) (vec3_scale u viscosityForce)\<rparr>)\<rparr>)"

definition ViscosityForce_apply ::
  "('f System \<Rightarrow> Vector3f \<Rightarrow> addr list) \<Rightarrow> (Vector3f \<Rightarrow> real) \<Rightarrow> addr list \<Rightarrow> 'f System \<Rightarrow> 'f System" where
  "ViscosityForce_apply query ddW targets s = fold (ViscosityForce_body query ddW) targets s"

definition SurfaceForce_body ::
  "('f System \<Rightarrow> Vector3f \<Rightarrow> Vector3f) \<Rightarrow> ('f System \<Rightarrow> Vector3f \<Rightarrow> real) \<Rightarrow> addr \<Rightarrow> 'f System \<Rightarrow> 'f System" where
  "SurfaceForce_body dEval ddEval p_i s =
     (let sigma = 72.75;
          certainThreshold = 0.01;
          n = dEval s (position (heap s p_i))
      in if vec3_norm n > certainThreshold
         then s\<lparr>heap := (heap s)(p_i := (heap s p_i)\<lparr>force :=
                vec3_add (force (heap s p_i))
                  (vec3_div (vec3_scale (- sigma * ddEval s (position (heap s p_i))) n) (vec3_norm n))\<rparr>)\<rparr>
         else s)"

definition SurfaceForce_apply ::
  "('f System \<Rightarrow> Vector3f \<Rightarrow> Vector3f) \<Rightarrow> ('f System \<Rightarrow> Vector3f \<Rightarrow> real) \<Rightarrow> addr list \<Rightarrow> 'f System \<Rightarrow> 'f System" where
  "SurfaceForce_apply dEval ddEval targets s = fold (SurfaceForce_body dEval ddEval) targets s"

section \<open>Vocabulary of the properties\<close>

subsection \<open>State vector\<close>

text \<open>The six slots of a particle in the state vector: position, then velocity.\<close>

definition state_slot :: "Particle \<Rightarrow> nat \<Rightarrow> real" where
  "state_slot p k =
     (if k = 0 then at0 (position p) else if k = 1 then at1 (position p)
      else if k = 2 then at2 (position p) else if k = 3 then at0 (velocity p)
      else if k = 4 then at1 (velocity p) else at2 (velocity p))"

text \<open>Example data: an anchored particle at address 0 and a free one at address 1.\<close>

definition example_particle :: "Vector3f \<Rightarrow> Vector3f \<Rightarrow> bool \<Rightarrow> Particle" where
  "example_particle x v m =
     \<lparr>position = x, velocity = v, force = (0, 0, 0), mass = 1, density = 1, pressure = 0,
      movable = m\<rparr>"

definition example_system :: "unit System" where
  "example_system =
     \<lparr>particles = [0, 1], forces = [], time = 0, dt = 0.001,
      heap = (\<lambda>_. example_particle (0, 0, 0) (0, 0, 0) True)
        (0 := example_particle (0, 0, 0) (0, 0, 0) False,
         1 := example_particle (0.1, 0, 0) (1, 0, 0) True)\<rparr>"

subsection \<open>Collisions\<close>

text \<open>
  The five loops of \<^verbatim>\<open>checkCollisions\<close> have one shape: a position slot \<open>c\<close>, a bound
  \<open>b\<close> on its low or high side, the velocity slot \<open>c + 3\<close> that is tested and written, and
  the slot \<open>src\<close> whose negation is written. \<open>collide_slot\<close> is the value a pass leaves
  in slot \<open>k\<close> of particle \<open>i\<close>.
\<close>

definition collide_slot :: "bool \<Rightarrow> real \<Rightarrow> nat \<Rightarrow> nat \<Rightarrow> VectorXf \<Rightarrow> nat \<Rightarrow> nat \<Rightarrow> real" where
  "collide_slot lo b c src v i k =
     (let out = (if lo then v ! (i * 6 + c) < b else v ! (i * 6 + c) > b);
          outward = (if lo then v ! (i * 6 + c + 3) < 0 else v ! (i * 6 + c + 3) > 0)
      in if out \<and> k = c then b
         else if out \<and> outward \<and> k = c + 3 then - (v ! (i * 6 + src))
         else v ! (i * 6 + k))"

definition collide_body :: "bool \<Rightarrow> real \<Rightarrow> nat \<Rightarrow> nat \<Rightarrow> nat \<Rightarrow> VectorXf \<Rightarrow> VectorXf option" where
  "collide_body lo b c src i v = do {
     p \<leftarrow> vget v (i * 6 + c);
     if (if lo then p < b else p > b) then do {
       v1 \<leftarrow> vset v (i * 6 + c) b;
       w \<leftarrow> vget v1 (i * 6 + c + 3);
       if (if lo then w < 0 else w > 0)
       then do { x \<leftarrow> vget v1 (i * 6 + src); vset v1 (i * 6 + c + 3) (- x) }
       else Some v1
     } else Some v
   }"

definition chunk_step :: "(VectorXf \<Rightarrow> nat \<Rightarrow> nat \<Rightarrow> real) \<Rightarrow> nat \<Rightarrow> VectorXf \<Rightarrow> VectorXf \<Rightarrow> bool" where
  "chunk_step G i v v' \<longleftrightarrow>
     length v' = length v \<and>
     (\<forall>i' k. k < 6 \<longrightarrow> i' * 6 + k < length v \<longrightarrow>
        v' ! (i' * 6 + k) = (if i' = i then G v i k else v ! (i' * 6 + k)))"

definition example_single :: "unit System" where
  "example_single =
     \<lparr>particles = [0], forces = [], time = 0, dt = 0.001,
      heap = (\<lambda>_. example_particle (0, 0, 0) (0, 0, 0) True)\<rparr>"

subsection \<open>Forces\<close>

text \<open>
  What one pass of \<^verbatim>\<open>SurfaceForce::apply\<close> leaves in the accumulator of a target, and
  the condition that a field of the System does not read force accumulators.
\<close>

definition SurfaceForce_result ::
  "('f System \<Rightarrow> Vector3f \<Rightarrow> Vector3f) \<Rightarrow> ('f System \<Rightarrow> Vector3f \<Rightarrow> real) \<Rightarrow> 'f System \<Rightarrow> addr \<Rightarrow> Vector3f" where
  "SurfaceForce_result dEval ddEval s a =
     (let n = dEval s (position (heap s a)) in
      if vec3_norm n > 0.01
      then vec3_add (force (heap s a))
             (vec3_div (vec3_scale (- 72.75 * ddEval s (position (heap s a))) n) (vec3_norm n))
      else force (heap s a))"

definition force_blind :: "('f System \<Rightarrow> 'b) \<Rightarrow> bool" where
  "force_blind field \<longleftrightarrow>
     (\<forall>t a f. field (t\<lparr>heap := (heap t)(a := (heap t a)\<lparr>force := f\<rparr>)\<rparr>) = field t)"

text \<open>
  The viscosity contribution as the claim words it: the coefficient times the sum of the
  terms of all queried neighbours.
\<close>

definition ViscosityForce_claimed ::
  "('f System \<Rightarrow> Vector3f \<Rightarrow> addr list) \<Rightarrow> (Vector3f \<Rightarrow> real) \<Rightarrow> 'f System \<Rightarrow> addr \<Rightarrow> Vector3f" where
  "ViscosityForce_claimed query ddW s p_i =
     vec3_scale 100
       (fold (\<lambda>p_j acc. vec3_add acc (ViscosityForce_term ddW (heap s p_i) (heap s p_j)))
          (query s (position (heap s p_i))) (0, 0, 0))"

text \<open>Example data: a particle at rest at address 0 with two moving neighbours.\<close>

definition example_fluid :: "unit System" where
  "example_fluid =
     \<lparr>particles = [0, 1, 2], forces = [], time = 0, dt = 0.001,
      heap = (\<lambda>_. example_particle (0, 0, 0) (0, 0, 0) True)
        (1 := example_particle (0.01, 0, 0) (1, 0, 0) True,
         2 := example_particle (0, 0.01, 0) (0, 2, 0) True)\<rparr>"

subsection \<open>Derivative\<close>

text \<open>
  The six slots of a particle in the derivative vector, and the condition that a field
  of the System does not read the densities stored in the particles.
\<close>

definition deriv_slot :: "Particle \<Rightarrow> nat \<Rightarrow> real" where
  "deriv_slot p k =
     (if k = 0 then at0 (velocity p) else if k = 1 then at1 (velocity p)
      else if k = 2 then at2 (velocity p) else if k = 3 then at0 (force p) / density p
      else if k = 4 then at1 (force p) / density p else at2 (force p) / density p)"

definition density_blind :: "('f System \<Rightarrow> 'b) \<Rightarrow> bool" where
  "density_blind field \<longleftrightarrow>
     (\<forall>t a d. field (t\<lparr>heap := (heap t)(a := (heap t a)\<lparr>density := d\<rparr>)\<rparr>) = field t)"

text \<open>
  Example data: a force that adds \<open>(0, -9.8 * mass, 0)\<close> to each of its targets, a
  density field, a System with two particles and that force on the second, and a System
  with the force registered and no particle.
\<close>

definition example_gravity :: "addr list \<Rightarrow> (addr list) System \<Rightarrow> (addr list) System" where
  "example_gravity targets s =
     fold (\<lambda>p t. t\<lparr>heap := (heap t)(p := (heap t p)\<lparr>force :=
             vec3_add (force (heap t p)) (0, - 9.8 * mass (heap t p), 0)\<rparr>)\<rparr>) targets s"

definition example_forced :: "(addr list) System" where
  "example_forced =
     \<lparr>particles = [0, 1], forces = [[1]], time = 0, dt = 0.001,
      heap = (\<lambda>_. example_particle (0, 0, 0) (0, 0, 0) True)
        (0 := example_particle (0, 0, 0) (0, 0, 0) False,
         1 := (example_particle (0.1, 0, 0) (1, 0, 0) True)\<lparr>force := (5, 5, 5)\<rparr>)\<rparr>"

definition example_empty :: "(addr list) System" where
  "example_empty =
     \<lparr>particles = [], forces = [[1]], time = 0, dt = 0.001,
      heap = (\<lambda>_. example_particle (0, 0, 0) (0, 0, 0) True)\<rparr>"

definition example_density :: "(addr list) System \<Rightarrow> addr \<Rightarrow> real" where
  "example_density s a = (if a = 0 then 1 else 3) * mass (heap s a)"

subsection \<open>Step controller\<close>



text \<open>
  Example data: a Solver that moves every movable registered particle by \<open>h * h / 2\<close>
  along X and advances the clock.
\<close>

definition example_solver :: "unit System \<Rightarrow> real \<Rightarrow> unit System" where
  "example_solver s h =
     s\<lparr>heap := (\<lambda>a. if a \<in> set (particles s) \<and> movable (heap s a)
                    then (heap s a)\<lparr>position := vec3_add (position (heap s a)) (h * h / 2, 0, 0)\<rparr>
                    else heap s a),
        time := time s + h\<rparr>"


section \<open>Loops\<close>

lemma for_loop_snoc:
  "for_loop body (xs @ [x]) s = (case for_loop body xs s of None \<Rightarrow> None | Some t \<Rightarrow> body x t)"
  by (induction xs arbitrary: s) (auto split: option.splits)

lemma for_loop_fixed: "(\<And>i. i \<in> set is \<Longrightarrow> body i s = Some s) \<Longrightarrow> for_loop body is s = Some s"
  by (induction "is") simp_all

lemma for_loop_invariant:
  assumes "for_loop body is s = Some s'" and "P s"
    and "\<And>i t t'. i \<in> set is \<Longrightarrow> P t \<Longrightarrow> body i t = Some t' \<Longrightarrow> P t'"
  shows "P s'"
  using assms
proof (induction "is" arbitrary: s)
  case Nil
  then show ?case by simp
next
  case (Cons i "is")
  from Cons.prems(1) obtain t where t: "body i s = Some t" "for_loop body is t = Some s'"
    by (auto split: option.splits)
  from Cons.prems(3) [of i s t] Cons.prems(2) t(1) have "P t" by simp
  show ?case
  proof (rule Cons.IH [OF t(2) \<open>P t\<close>])
    fix j u u' assume "j \<in> set is" "P u" "body j u = Some u'"
    then show "P u'" using Cons.prems(3) [of j u u'] by simp
  qed
qed

lemma for_loop_total:
  assumes "P s"
    and "\<And>i t. i \<in> set is \<Longrightarrow> P t \<Longrightarrow> \<exists>t'. body i t = Some t' \<and> P t'"
  shows "\<exists>s'. for_loop body is s = Some s' \<and> P s'"
  using assms
proof (induction "is" arbitrary: s)
  case Nil
  then show ?case by simp
next
  case (Cons i "is")
  from Cons.prems obtain t where t: "body i s = Some t" "P t" by fastforce
  from Cons.IH [OF t(2)] Cons.prems(2) obtain s' where "for_loop body is t = Some s'" "P s'"
    by fastforce
  with t show ?case by simp
qed

section \<open>The state vector: layout, round trip, anchored particles\<close>

lemma getState_body_length: "length (getState_body s n r) = length r"
  by (simp add: getState_body_def Let_def)

lemma getState_fold_length: "length (fold (getState_body s) is r) = length r"
  by (induction "is" arbitrary: r) (simp_all add: getState_body_length)

lemma getState_body_nth_below: "j < n * 6 \<Longrightarrow> getState_body s n r ! j = r ! j"
  by (simp add: getState_body_def Let_def)

lemma getState_body_nth_here:
  "n * 6 + 5 < length r \<Longrightarrow> k < 6 \<Longrightarrow>
   getState_body s n r ! (n * 6 + k) = state_slot (heap s (particles s ! n)) k"
proof -
  assume b: "n * 6 + 5 < length r" and "k < 6"
  then have "k = 0 \<or> k = 1 \<or> k = 2 \<or> k = 3 \<or> k = 4 \<or> k = 5" by arith
  then show ?thesis using b
    by (elim disjE) (simp_all add: getState_body_def Let_def state_slot_def)
qed

lemma getState_fold_nth:
  "6 * n \<le> length r \<Longrightarrow> j < 6 * n \<Longrightarrow>
   fold (getState_body s) [0..<n] r ! j = state_slot (heap s (particles s ! (j div 6))) (j mod 6)"
proof (induction n arbitrary: j)
  case 0
  then show ?case by simp
next
  case (Suc n)
  let ?r = "fold (getState_body s) [0..<n] r"
  have len: "length ?r = length r" by (rule getState_fold_length)
  show ?case
  proof (cases "j < 6 * n")
    case True
    with Suc have "?r ! j = state_slot (heap s (particles s ! (j div 6))) (j mod 6)" by simp
    with True show ?thesis by (simp add: getState_body_nth_below mult.commute)
  next
    case False
    with Suc.prems have d: "j div 6 = n" by simp
    have m: "j = n * 6 + j mod 6" "j mod 6 < 6" using d div_mult_mod_eq [of j 6] by simp_all
    from Suc.prems len have b: "n * 6 + 5 < length ?r" by simp
    have "getState_body s n ?r ! (n * 6 + j mod 6) = state_slot (heap s (particles s ! n)) (j mod 6)"
      using b m(2) by (rule getState_body_nth_here)
    then show ?thesis using d m(1) by simp
  qed
qed

lemma getState_length: "length (getState s) = 6 * length (particles s)"
  by (simp add: getState_def getState_fold_length getDim_def)

lemma getState_nth:
  "i < length (particles s) \<Longrightarrow> k < 6 \<Longrightarrow>
   getState s ! (i * 6 + k) = state_slot (heap s (particles s ! i)) k"
  unfolding getState_def using getState_fold_nth [of "length (particles s)" "replicate (getDim s) 0" "i * 6 + k" s]
  by (simp add: getDim_def)

lemma vget_getState:
  "i < length (particles s) \<Longrightarrow> k < 6 \<Longrightarrow>
   vget (getState s) (i * 6 + k) = Some (state_slot (heap s (particles s ! i)) k)"
  by (simp add: vget_def getState_length getState_nth)

lemma vec3_eta: "(at0 v, at1 v, at2 v) = v"
  by (cases v) simp

lemma setState_body_getState:
  assumes "i < length (particles s)"
  shows "setState_body (getState s) i s = Some s"
proof -
  have "vget (getState s) (i * 6 + 0) = Some (at0 (position (heap s (particles s ! i))))"
       "vget (getState s) (i * 6 + 1) = Some (at1 (position (heap s (particles s ! i))))"
       "vget (getState s) (i * 6 + 2) = Some (at2 (position (heap s (particles s ! i))))"
       "vget (getState s) (i * 6 + 3) = Some (at0 (velocity (heap s (particles s ! i))))"
       "vget (getState s) (i * 6 + 4) = Some (at1 (velocity (heap s (particles s ! i))))"
       "vget (getState s) (i * 6 + 5) = Some (at2 (velocity (heap s (particles s ! i))))"
    using assms by (simp_all only: vget_getState) (simp_all add: state_slot_def)
  then show ?thesis
    by (simp add: setState_body_def Let_def vec3_eta)
qed

lemma setState_body_cases:
  assumes "setState_body src i t = Some t'"
  shows "particles t' = particles t \<and> time t' = time t \<and> dt t' = dt t \<and> forces t' = forces t
         \<and> (\<forall>a. \<not> movable (heap t a) \<longrightarrow> heap t' a = heap t a)
         \<and> (\<forall>a. a \<noteq> particles t ! i \<longrightarrow> heap t' a = heap t a)
         \<and> (\<forall>a. movable (heap t' a) = movable (heap t a))"
  using assms by (auto simp: setState_body_def Let_def split: if_splits bind_splits)

lemma setState_body_total:
  assumes "i * 6 + 5 < length src"
  shows "\<exists>t'. setState_body src i t = Some t' \<and> particles t' = particles t"
  using assms by (simp add: setState_body_def Let_def vget_def)

lemma setState_loop_total:
  fixes s :: "'f System"
  assumes "6 * length (particles s) \<le> length src"
  shows "\<exists>s'. for_loop (setState_body src) [0..<length (particles s)] s = Some s'
           \<and> particles s' = particles s"
proof (rule for_loop_total)
  show "particles s = particles s" by simp
next
  fix i and t :: "'f System"
  assume "i \<in> set [0..<length (particles s)]" "particles t = particles s"
  with assms have "i * 6 + 5 < length src" by simp
  from setState_body_total [OF this, of t] \<open>particles t = particles s\<close>
  show "\<exists>t'. setState_body src i t = Some t' \<and> particles t' = particles s" by simp
qed

lemma setState_loop_immovable:
  fixes s :: "'f System"
  assumes "for_loop (setState_body src) is s = Some s'" and "\<not> movable (heap s a)"
  shows "heap s' a = heap s a"
proof -
  have "heap s' a = heap s a \<and> \<not> movable (heap s' a)"
  proof (rule for_loop_invariant [OF assms(1), where P = "\<lambda>t. heap t a = heap s a \<and> \<not> movable (heap t a)"])
    show "heap s a = heap s a \<and> \<not> movable (heap s a)" using assms(2) by simp
  next
    fix i and t t' :: "'f System"
    assume "heap t a = heap s a \<and> \<not> movable (heap t a)" "setState_body src i t = Some t'"
    then show "heap t' a = heap s a \<and> \<not> movable (heap t' a)"
      using setState_body_cases [of src i t t'] by auto
  qed
  then show ?thesis by simp
qed

text \<open>
  C7. Writing back the state vector that was just read changes nothing: every slot read
  from a movable particle is written back with the value read, and the write to an
  immovable particle is skipped. The call returns, and the System it leaves is the System
  it was given (particles, clock and step size included).
\<close>

theorem setState_getState: "setState s (getState s) = Some s"
proof -
  have "for_loop (setState_body (getState s)) [0..<length (particles s)] s = Some s"
    by (rule for_loop_fixed) (simp add: setState_body_getState)
  then show ?thesis by (simp add: setState_def setState2_def getTime_def)
qed

theorem setState_getState_witness:
  "setState example_system (getState example_system) = Some example_system"
  using setState_getState [of example_system] .

text \<open>
  C8. After \<^verbatim>\<open>setState\<close>, in the form with a time and in the form without, a particle
  whose movable flag is false has the position and velocity it had before, whatever the
  incoming vector holds. A vector of at least \<open>6N\<close> entries is always accepted.
\<close>

theorem setState_keeps_immovable:
  fixes s :: "'f System"
  assumes "\<not> movable (heap s a)"
  shows "(\<forall>s'. setState2 s src t = Some s' \<longrightarrow>
            position (heap s' a) = position (heap s a) \<and> velocity (heap s' a) = velocity (heap s a))
       \<and> (\<forall>s'. setState s src = Some s' \<longrightarrow>
            position (heap s' a) = position (heap s a) \<and> velocity (heap s' a) = velocity (heap s a))
       \<and> (6 * length (particles s) \<le> length src \<longrightarrow>
            setState2 s src t \<noteq> None \<and> setState s src \<noteq> None)"
proof -
  have two: "heap s' a = heap s a" if "setState2 s src u = Some s'" for s' u
  proof -
    from that obtain t' where t': "for_loop (setState_body src) [0..<length (particles s)] s = Some t'"
      and s': "s' = t'\<lparr>time := u\<rparr>"
      by (auto simp: setState2_def split: bind_splits)
    from setState_loop_immovable [OF t' assms] s' show ?thesis by simp
  qed
  have tot: "setState2 s src u \<noteq> None" if "6 * length (particles s) \<le> length src" for u
    using setState_loop_total [OF that] by (auto simp: setState2_def)
  show ?thesis using two tot by (auto simp: setState_def)
qed

theorem setState_keeps_immovable_witness:
  "\<not> movable (heap example_system 0)
   \<and> (\<exists>s'. setState2 example_system [1, 2, 3, 4, 5, 6, 7, 8, 9, 10, 11, 12] 5 = Some s'
         \<and> position (heap s' 0) = (0, 0, 0) \<and> velocity (heap s' 0) = (0, 0, 0)
         \<and> position (heap s' 1) = (7, 8, 9))"
proof -
  have m: "\<not> movable (heap example_system 0)"
    by (simp add: example_system_def example_particle_def)
  have e: "setState2 example_system [1, 2, 3, 4, 5, 6, 7, 8, 9, 10, 11, 12] 5 \<noteq> None"
    using setState_keeps_immovable [OF m, of "[1, 2, 3, 4, 5, 6, 7, 8, 9, 10, 11, 12]" 5]
    by (simp add: example_system_def)
  then obtain s' where s': "setState2 example_system [1, 2, 3, 4, 5, 6, 7, 8, 9, 10, 11, 12] 5 = Some s'"
    by auto
  have "position (heap s' 0) = (0, 0, 0) \<and> velocity (heap s' 0) = (0, 0, 0)"
    using setState_keeps_immovable [OF m, of "[1, 2, 3, 4, 5, 6, 7, 8, 9, 10, 11, 12]" 5] s'
    by (simp add: example_system_def example_particle_def)
  moreover have "position (heap s' 1) = (7, 8, 9)"
    using s' by (auto simp: setState2_def setState_body_def vget_def example_system_def
        example_particle_def upt_rec split: bind_splits)
  ultimately show ?thesis using m s' by simp
qed

section \<open>Boundary collisions: the container\<close>

lemma idx_eq: "k < 6 \<Longrightarrow> c < 6 \<Longrightarrow> (i' * 6 + k = i * 6 + c) = (i' = i \<and> k = (c::nat))"
  by arith

lemma collide_bodies:
  "checkCollisions_x_lo = collide_body True (- 0.2) 0 3"
  "checkCollisions_x_hi = collide_body False 0.2 0 3"
  "checkCollisions_z_lo = collide_body True (- 0.2) 2 3"
  "checkCollisions_z_hi = collide_body False 0.2 2 3"
  "checkCollisions_y_lo = collide_body True (- 2) 1 4"
  by (simp_all add: fun_eq_iff collide_body_def checkCollisions_x_lo_def checkCollisions_x_hi_def
      checkCollisions_z_lo_def checkCollisions_z_hi_def checkCollisions_y_lo_def add.assoc
      del: One_nat_def add_2_eq_Suc' add_2_eq_Suc cong: if_cong)

lemma collide_body_step:
  assumes "i * 6 + 5 < length v" "c < 3" "src < 6" "src \<noteq> c"
  shows "\<exists>v'. collide_body lo b c src i v = Some v' \<and> chunk_step (collide_slot lo b c src) i v v'"
proof (cases "if lo then v ! (i * 6 + c) < b else v ! (i * 6 + c) > b")
  case False
  with assms show ?thesis
    by (simp add: collide_body_def vget_def chunk_step_def collide_slot_def)
next
  case out: True
  let ?v1 = "v[i * 6 + c := b]"
  have r: "?v1 ! (i * 6 + c + 3) = v ! (i * 6 + c + 3)" "?v1 ! (i * 6 + src) = v ! (i * 6 + src)"
    using assms by simp_all
  show ?thesis
  proof (cases "if lo then v ! (i * 6 + c + 3) < 0 else v ! (i * 6 + c + 3) > 0")
    case False
    have "collide_body lo b c src i v = Some ?v1"
      using assms out False r by (simp add: collide_body_def vget_def vset_def)
    moreover have "chunk_step (collide_slot lo b c src) i v ?v1"
      using assms out False
      by (auto simp: chunk_step_def collide_slot_def nth_list_update idx_eq)
    ultimately show ?thesis by simp
  next
    case True
    have "collide_body lo b c src i v = Some (?v1[i * 6 + c + 3 := - (v ! (i * 6 + src))])"
      using assms out True r by (simp add: collide_body_def vget_def vset_def)
    moreover have "chunk_step (collide_slot lo b c src) i v (?v1[i * 6 + c + 3 := - (v ! (i * 6 + src))])"
      using assms out True idx_eq [of _ "c + 3"]
      by (auto simp: chunk_step_def collide_slot_def nth_list_update idx_eq add.assoc)
    ultimately show ?thesis by simp
  qed
qed


lemma collide_slot_local:
  assumes "\<And>k. k < 6 \<Longrightarrow> v ! (i * 6 + k) = w ! (i * 6 + k)" "c < 3" "src < 6" "k < 6"
  shows "collide_slot lo b c src v i k = collide_slot lo b c src w i k"
proof -
  have "v ! (i * 6 + c) = w ! (i * 6 + c)" "v ! (i * 6 + c + 3) = w ! (i * 6 + c + 3)"
       "v ! (i * 6 + src) = w ! (i * 6 + src)" "v ! (i * 6 + k) = w ! (i * 6 + k)"
    using assms(1) [of c] assms(1) [of "c + 3"] assms(1) [of src] assms(1) [of k] assms(2-)
    by (simp_all add: add.assoc)
  then show ?thesis by (auto simp: collide_slot_def Let_def add.assoc)
qed

lemma collide_loop:
  assumes "6 * n \<le> length v" "c < 3" "src < 6" "src \<noteq> c"
  shows "\<exists>v'. for_loop (collide_body lo b c src) [0..<n] v = Some v' \<and> length v' = length v \<and>
           (\<forall>i k. k < 6 \<longrightarrow> i * 6 + k < length v \<longrightarrow>
              v' ! (i * 6 + k) = (if i < n then collide_slot lo b c src v i k else v ! (i * 6 + k)))"
  using assms(1)
proof (induction n)
  case 0
  then show ?case by simp
next
  case (Suc n)
  then obtain u where u: "for_loop (collide_body lo b c src) [0..<n] v = Some u" "length u = length v"
    and un: "\<And>i k. k < 6 \<Longrightarrow> i * 6 + k < length v \<Longrightarrow>
              u ! (i * 6 + k) = (if i < n then collide_slot lo b c src v i k else v ! (i * 6 + k))"
    by auto
  from Suc.prems u(2) have b: "n * 6 + 5 < length u" by simp
  from collide_body_step [OF b assms(2-4), of lo b] obtain v'
    where v': "collide_body lo b c src n u = Some v'" "chunk_step (collide_slot lo b c src) n u v'"
    by blast
  have same: "u ! (n * 6 + k) = v ! (n * 6 + k)" if "k < 6" for k
    using un [of k n] that b u(2) by simp
  have loc: "collide_slot lo b c src u n k = collide_slot lo b c src v n k" if "k < 6" for k
    using collide_slot_local [of u n v c src k lo b] same assms(2,3) that by simp
  have "v' ! (i * 6 + k) = (if i < Suc n then collide_slot lo b c src v i k else v ! (i * 6 + k))"
    if "k < 6" "i * 6 + k < length v" for i k
  proof -
    from v'(2) that u(2) have "v' ! (i * 6 + k) = (if i = n then collide_slot lo b c src u n k else u ! (i * 6 + k))"
      by (simp add: chunk_step_def)
    then show ?thesis using un [OF that] loc [OF that(1)] by (auto simp: less_Suc_eq)
  qed
  moreover have "length v' = length v" using v'(2) u(2) by (simp add: chunk_step_def)
  ultimately show ?case using u(1) v'(1) by (simp add: for_loop_snoc)
qed

lemma checkCollisions_loops:
  assumes "6 * n \<le> length v"
  shows "\<exists>v'. for_loop checkCollisions_x_lo [0..<n] v = Some v' \<and> length v' = length v \<and>
           (\<forall>i k. k < 6 \<longrightarrow> i < n \<longrightarrow> v' ! (i * 6 + k) = collide_slot True (- 0.2) 0 3 v i k)"
    and "\<exists>v'. for_loop checkCollisions_x_hi [0..<n] v = Some v' \<and> length v' = length v \<and>
           (\<forall>i k. k < 6 \<longrightarrow> i < n \<longrightarrow> v' ! (i * 6 + k) = collide_slot False 0.2 0 3 v i k)"
    and "\<exists>v'. for_loop checkCollisions_z_lo [0..<n] v = Some v' \<and> length v' = length v \<and>
           (\<forall>i k. k < 6 \<longrightarrow> i < n \<longrightarrow> v' ! (i * 6 + k) = collide_slot True (- 0.2) 2 3 v i k)"
    and "\<exists>v'. for_loop checkCollisions_z_hi [0..<n] v = Some v' \<and> length v' = length v \<and>
           (\<forall>i k. k < 6 \<longrightarrow> i < n \<longrightarrow> v' ! (i * 6 + k) = collide_slot False 0.2 2 3 v i k)"
    and "\<exists>v'. for_loop checkCollisions_y_lo [0..<n] v = Some v' \<and> length v' = length v \<and>
           (\<forall>i k. k < 6 \<longrightarrow> i < n \<longrightarrow> v' ! (i * 6 + k) = collide_slot True (- 2) 1 4 v i k)"
proof -
  have r: "i * 6 + k < length v" if "k < 6" "i < n" for i k
    using that assms by simp
  show "\<exists>v'. for_loop checkCollisions_x_lo [0..<n] v = Some v' \<and> length v' = length v \<and>
           (\<forall>i k. k < 6 \<longrightarrow> i < n \<longrightarrow> v' ! (i * 6 + k) = collide_slot True (- 0.2) 0 3 v i k)"
    using collide_loop [OF assms, of 0 3 True "- 0.2"] r unfolding collide_bodies by fastforce
  show "\<exists>v'. for_loop checkCollisions_x_hi [0..<n] v = Some v' \<and> length v' = length v \<and>
           (\<forall>i k. k < 6 \<longrightarrow> i < n \<longrightarrow> v' ! (i * 6 + k) = collide_slot False 0.2 0 3 v i k)"
    using collide_loop [OF assms, of 0 3 False "0.2"] r unfolding collide_bodies by fastforce
  show "\<exists>v'. for_loop checkCollisions_z_lo [0..<n] v = Some v' \<and> length v' = length v \<and>
           (\<forall>i k. k < 6 \<longrightarrow> i < n \<longrightarrow> v' ! (i * 6 + k) = collide_slot True (- 0.2) 2 3 v i k)"
    using collide_loop [OF assms, of 2 3 True "- 0.2"] r unfolding collide_bodies by fastforce
  show "\<exists>v'. for_loop checkCollisions_z_hi [0..<n] v = Some v' \<and> length v' = length v \<and>
           (\<forall>i k. k < 6 \<longrightarrow> i < n \<longrightarrow> v' ! (i * 6 + k) = collide_slot False 0.2 2 3 v i k)"
    using collide_loop [OF assms, of 2 3 False "0.2"] r unfolding collide_bodies by fastforce
  show "\<exists>v'. for_loop checkCollisions_y_lo [0..<n] v = Some v' \<and> length v' = length v \<and>
           (\<forall>i k. k < 6 \<longrightarrow> i < n \<longrightarrow> v' ! (i * 6 + k) = collide_slot True (- 2) 1 4 v i k)"
    using collide_loop [OF assms, of 1 4 True "- 2"] r unfolding collide_bodies by fastforce
qed


text \<open>
  C10. For a state vector of length \<open>6N\<close>, \<^verbatim>\<open>checkCollisions\<close> returns a vector of the
  same length in which every X and every Z position lies in \<open>[-0.2, 0.2]\<close> and every Y
  position is at least \<open>-2\<close>; a position component that was within its bounds already
  comes back with the value it had.
\<close>

theorem checkCollisions_in_container:
  fixes s :: "'f System"
  assumes "length v = 6 * length (particles s)"
  shows "\<exists>v'. checkCollisions s v = Some v' \<and> length v' = length v \<and>
           (\<forall>i < length (particles s).
              - 0.2 \<le> v' ! (i * 6) \<and> v' ! (i * 6) \<le> 0.2 \<and>
              - 0.2 \<le> v' ! (i * 6 + 2) \<and> v' ! (i * 6 + 2) \<le> 0.2 \<and>
              - 2.0 \<le> v' ! (i * 6 + 1) \<and>
              (- 0.2 \<le> v ! (i * 6) \<and> v ! (i * 6) \<le> 0.2 \<longrightarrow> v' ! (i * 6) = v ! (i * 6)) \<and>
              (- 0.2 \<le> v ! (i * 6 + 2) \<and> v ! (i * 6 + 2) \<le> 0.2 \<longrightarrow> v' ! (i * 6 + 2) = v ! (i * 6 + 2)) \<and>
              (- 2.0 \<le> v ! (i * 6 + 1) \<longrightarrow> v' ! (i * 6 + 1) = v ! (i * 6 + 1)))"
proof -
  let ?n = "length (particles s)"
  from assms have l0: "6 * ?n \<le> length v" by simp
  from checkCollisions_loops(1) [OF l0] obtain v1 where
    v1: "for_loop checkCollisions_x_lo [0..<?n] v = Some v1" "length v1 = length v"
    and s1: "\<And>i k. k < 6 \<Longrightarrow> i < ?n \<Longrightarrow> v1 ! (i * 6 + k) = collide_slot True (- 0.2) 0 3 v i k"
    by blast
  from l0 v1(2) have l1: "6 * ?n \<le> length v1" by simp
  from checkCollisions_loops(2) [OF l1] obtain v2 where
    v2: "for_loop checkCollisions_x_hi [0..<?n] v1 = Some v2" "length v2 = length v1"
    and s2: "\<And>i k. k < 6 \<Longrightarrow> i < ?n \<Longrightarrow> v2 ! (i * 6 + k) = collide_slot False 0.2 0 3 v1 i k"
    by blast
  from l1 v2(2) have l2: "6 * ?n \<le> length v2" by simp
  from checkCollisions_loops(3) [OF l2] obtain v3 where
    v3: "for_loop checkCollisions_z_lo [0..<?n] v2 = Some v3" "length v3 = length v2"
    and s3: "\<And>i k. k < 6 \<Longrightarrow> i < ?n \<Longrightarrow> v3 ! (i * 6 + k) = collide_slot True (- 0.2) 2 3 v2 i k"
    by blast
  from l2 v3(2) have l3: "6 * ?n \<le> length v3" by simp
  from checkCollisions_loops(4) [OF l3] obtain v4 where
    v4: "for_loop checkCollisions_z_hi [0..<?n] v3 = Some v4" "length v4 = length v3"
    and s4: "\<And>i k. k < 6 \<Longrightarrow> i < ?n \<Longrightarrow> v4 ! (i * 6 + k) = collide_slot False 0.2 2 3 v3 i k"
    by blast
  from l3 v4(2) have l4: "6 * ?n \<le> length v4" by simp
  from checkCollisions_loops(5) [OF l4] obtain v5 where
    v5: "for_loop checkCollisions_y_lo [0..<?n] v4 = Some v5" "length v5 = length v4"
    and s5: "\<And>i k. k < 6 \<Longrightarrow> i < ?n \<Longrightarrow> v5 ! (i * 6 + k) = collide_slot True (- 2) 1 4 v4 i k"
    by blast
  have res: "checkCollisions s v = Some v5"
    using v1(1) v2(1) v3(1) v4(1) v5(1) by (simp add: checkCollisions_def)
  have len: "length v5 = length v"
    using v1(2) v2(2) v3(2) v4(2) v5(2) by simp
  have slots: "v5 ! (i * 6) = (let x = v ! (i * 6); x1 = (if x < - 0.2 then - 0.2 else x)
                               in if x1 > 0.2 then 0.2 else x1)"
     "v5 ! (i * 6 + 2) = (let z = v ! (i * 6 + 2); z1 = (if z < - 0.2 then - 0.2 else z)
                               in if z1 > 0.2 then 0.2 else z1)"
     "v5 ! (i * 6 + 1) = (let y = v ! (i * 6 + 1) in if y < - 2 then - 2 else y)"
    if "i < ?n" for i
    using s5 [of 0 i] s4 [of 0 i] s3 [of 0 i] s2 [of 0 i] s1 [of 0 i]
      s5 [of 2 i] s4 [of 2 i] s3 [of 2 i] s2 [of 2 i] s1 [of 2 i]
      s5 [of 1 i] s4 [of 1 i] s3 [of 1 i] s2 [of 1 i] s1 [of 1 i] that
    by (simp_all add: collide_slot_def Let_def)
  have "- 0.2 \<le> v5 ! (i * 6) \<and> v5 ! (i * 6) \<le> 0.2 \<and>
        - 0.2 \<le> v5 ! (i * 6 + 2) \<and> v5 ! (i * 6 + 2) \<le> 0.2 \<and>
        - 2.0 \<le> v5 ! (i * 6 + 1) \<and>
        (- 0.2 \<le> v ! (i * 6) \<and> v ! (i * 6) \<le> 0.2 \<longrightarrow> v5 ! (i * 6) = v ! (i * 6)) \<and>
        (- 0.2 \<le> v ! (i * 6 + 2) \<and> v ! (i * 6 + 2) \<le> 0.2 \<longrightarrow> v5 ! (i * 6 + 2) = v ! (i * 6 + 2)) \<and>
        (- 2.0 \<le> v ! (i * 6 + 1) \<longrightarrow> v5 ! (i * 6 + 1) = v ! (i * 6 + 1))"
    if "i < ?n" for i
    unfolding slots [OF that] by (simp add: Let_def)
  with res len show ?thesis by blast
qed

theorem checkCollisions_in_container_witness:
  "length [0.3, - 2.5, 0, 1, - 1, 0, 0.1, 5, - 0.3, 0, 0, - 1 :: real] = 6 * length (particles example_system)
   \<and> (\<exists>v'. checkCollisions example_system [0.3, - 2.5, 0, 1, - 1, 0, 0.1, 5, - 0.3, 0, 0, - 1] = Some v'
         \<and> v' ! 0 \<le> 0.2 \<and> - 2 \<le> v' ! 1 \<and> v' ! 2 = 0 \<and> v' ! 6 = 0.1 \<and> v' ! 7 = 5 \<and> - 0.2 \<le> v' ! 8)"
proof -
  have l: "length [0.3, - 2.5, 0, 1, - 1, 0, 0.1, 5, - 0.3, 0, 0, - 1 :: real] = 6 * length (particles example_system)"
    by (simp add: example_system_def)
  from checkCollisions_in_container [OF l] obtain v' where
    v': "checkCollisions example_system [0.3, - 2.5, 0, 1, - 1, 0, 0.1, 5, - 0.3, 0, 0, - 1] = Some v'"
    and b: "\<And>i. i < length (particles example_system) \<Longrightarrow>
              v' ! (i * 6) \<le> 0.2 \<and> - 0.2 \<le> v' ! (i * 6 + 2) \<and> - 2.0 \<le> v' ! (i * 6 + 1) \<and>
              (- 0.2 \<le> [0.3, - 2.5, 0, 1, - 1, 0, 0.1, 5, - 0.3, 0, 0, - 1 :: real] ! (i * 6)
                \<and> [0.3, - 2.5, 0, 1, - 1, 0, 0.1, 5, - 0.3, 0, 0, - 1 :: real] ! (i * 6) \<le> 0.2
                \<longrightarrow> v' ! (i * 6) = [0.3, - 2.5, 0, 1, - 1, 0, 0.1, 5, - 0.3, 0, 0, - 1 :: real] ! (i * 6)) \<and>
              (- 0.2 \<le> [0.3, - 2.5, 0, 1, - 1, 0, 0.1, 5, - 0.3, 0, 0, - 1 :: real] ! (i * 6 + 2)
                \<and> [0.3, - 2.5, 0, 1, - 1, 0, 0.1, 5, - 0.3, 0, 0, - 1 :: real] ! (i * 6 + 2) \<le> 0.2
                \<longrightarrow> v' ! (i * 6 + 2) = [0.3, - 2.5, 0, 1, - 1, 0, 0.1, 5, - 0.3, 0, 0, - 1 :: real] ! (i * 6 + 2)) \<and>
              (- 2.0 \<le> [0.3, - 2.5, 0, 1, - 1, 0, 0.1, 5, - 0.3, 0, 0, - 1 :: real] ! (i * 6 + 1)
                \<longrightarrow> v' ! (i * 6 + 1) = [0.3, - 2.5, 0, 1, - 1, 0, 0.1, 5, - 0.3, 0, 0, - 1 :: real] ! (i * 6 + 1))"
    by blast
  have n: "0 < length (particles example_system)" "1 < length (particles example_system)"
    by (simp_all add: example_system_def)
  from b [OF n(1)] b [OF n(2)] v' l show ?thesis by (simp add: numeral_2_eq_2)
qed

text \<open>
  C1. Each position component is clamped as the claim says, and the X and the Y passes
  negate their own velocity slot; a particle inside the container comes back unchanged.
  The two Z passes assign the negated X velocity to the Z velocity slot instead: a
  particle at Z = -0.25 with velocity (3, 0, -1) comes back with Z = -0.2 and Z velocity
  -3, where the claim says +1.
\<close>

theorem checkCollisions_z_reflection:
  "checkCollisions example_single [0, 0, - 0.25, 3, 0, - 1] = Some [0, 0, - 0.2, 3, 0, - 3]
   \<and> checkCollisions example_single [0, 0, 0.25, 3, 0, 1] = Some [0, 0, 0.2, 3, 0, - 3]
   \<and> checkCollisions example_single [- 0.25, 0, 0, - 1, 0, 0] = Some [- 0.2, 0, 0, 1, 0, 0]
   \<and> checkCollisions example_single [0, - 2.5, 0, 0, - 1, 0] = Some [0, - 2, 0, 0, 1, 0]
   \<and> checkCollisions example_single [0.1, 0, - 0.1, 1, - 1, 1] = Some [0.1, 0, - 0.1, 1, - 1, 1]"
  by (simp add: checkCollisions_def example_single_def checkCollisions_x_lo_def
      checkCollisions_x_hi_def checkCollisions_z_lo_def checkCollisions_z_hi_def
      checkCollisions_y_lo_def vget_def vset_def)

section \<open>Surface tension\<close>

lemma SurfaceForce_body_eq:
  "SurfaceForce_body dEval ddEval a t =
     t\<lparr>heap := (heap t)(a := (heap t a)\<lparr>force := SurfaceForce_result dEval ddEval t a\<rparr>)\<rparr>"
  by (simp add: SurfaceForce_body_def SurfaceForce_result_def Let_def)

lemma SurfaceForce_result_frame:
  assumes "force_blind dEval" "force_blind ddEval" "b \<noteq> a"
  shows "SurfaceForce_result dEval ddEval (t\<lparr>heap := (heap t)(a := (heap t a)\<lparr>force := f\<rparr>)\<rparr>) b
         = SurfaceForce_result dEval ddEval t b"
proof -
  have "dEval (t\<lparr>heap := (heap t)(a := (heap t a)\<lparr>force := f\<rparr>)\<rparr>) = dEval t"
       "ddEval (t\<lparr>heap := (heap t)(a := (heap t a)\<lparr>force := f\<rparr>)\<rparr>) = ddEval t"
    using assms(1,2) unfolding force_blind_def by blast+
  then show ?thesis using assms(3) by (simp add: SurfaceForce_result_def Let_def cong: if_cong)
qed

lemma SurfaceForce_fold:
  fixes t :: "'f System"
  assumes "force_blind dEval" "force_blind ddEval" "distinct targets"
  shows "(\<forall>a \<in> set targets. force (heap (fold (SurfaceForce_body dEval ddEval) targets t) a)
             = SurfaceForce_result dEval ddEval t a)
       \<and> (\<forall>a. a \<notin> set targets \<longrightarrow> heap (fold (SurfaceForce_body dEval ddEval) targets t) a = heap t a)
       \<and> (\<forall>a. (heap (fold (SurfaceForce_body dEval ddEval) targets t) a)\<lparr>force := force (heap t a)\<rparr> = heap t a)
       \<and> (fold (SurfaceForce_body dEval ddEval) targets t)\<lparr>heap := heap t\<rparr> = t"
  using assms(3)
proof (induction targets arbitrary: t)
  case Nil
  then show ?case by simp
next
  case (Cons a targets)
  let ?t1 = "SurfaceForce_body dEval ddEval a t"
  let ?t' = "fold (SurfaceForce_body dEval ddEval) targets ?t1"
  from Cons.prems have d: "distinct targets" and na: "a \<notin> set targets" by simp_all
  note IH = Cons.IH [OF d, of ?t1]
  have t1: "?t1 = t\<lparr>heap := (heap t)(a := (heap t a)\<lparr>force := SurfaceForce_result dEval ddEval t a\<rparr>)\<rparr>"
    by (rule SurfaceForce_body_eq)
  have 1: "force (heap ?t' b) = SurfaceForce_result dEval ddEval t b" if "b \<in> set (a # targets)" for b
  proof (cases "b = a")
    case True
    with IH na have "heap ?t' b = heap ?t1 b" by blast
    with True show ?thesis by (simp add: t1)
  next
    case False
    with that IH have "force (heap ?t' b) = SurfaceForce_result dEval ddEval ?t1 b" by simp
    also have "\<dots> = SurfaceForce_result dEval ddEval t b"
      unfolding t1 using assms(1,2) False by (rule SurfaceForce_result_frame)
    finally show ?thesis .
  qed
  have 2: "heap ?t' b = heap t b" if "b \<notin> set (a # targets)" for b
  proof -
    from that IH have "heap ?t' b = heap ?t1 b" by simp
    with that show ?thesis by (simp add: t1)
  qed
  have 3: "(heap ?t' b)\<lparr>force := force (heap t b)\<rparr> = heap t b" for b
  proof -
    from IH have e: "(heap ?t' b)\<lparr>force := force (heap ?t1 b)\<rparr> = heap ?t1 b" by blast
    have "(heap ?t' b)\<lparr>force := force (heap t b)\<rparr>
          = ((heap ?t' b)\<lparr>force := force (heap ?t1 b)\<rparr>)\<lparr>force := force (heap t b)\<rparr>" by simp
    also have "\<dots> = (heap ?t1 b)\<lparr>force := force (heap t b)\<rparr>" by (simp only: e)
    also have "\<dots> = heap t b" by (simp add: t1)
    finally show ?thesis .
  qed
  have 4: "?t'\<lparr>heap := heap t\<rparr> = t"
  proof -
    from IH have e: "?t'\<lparr>heap := heap ?t1\<rparr> = ?t1" by blast
    have "?t'\<lparr>heap := heap t\<rparr> = (?t'\<lparr>heap := heap ?t1\<rparr>)\<lparr>heap := heap t\<rparr>" by simp
    also have "\<dots> = ?t1\<lparr>heap := heap t\<rparr>" by (simp only: e)
    also have "\<dots> = t" by (simp add: t1)
    finally show ?thesis .
  qed
  from 1 2 3 4 show ?case by simp
qed


text \<open>
  C9. For targets that are pairwise distinct and a Color field that does not read force
  accumulators, \<^verbatim>\<open>SurfaceForce::apply\<close> adds \<open>-sigma * ddEval(position) * n / |n|\<close>,
  with \<open>sigma = 72.75\<close> and \<open>n = dEval(position)\<close>, to the accumulator of every target
  with \<open>|n| > 0.01\<close>, and leaves the accumulator of every other target as it was. Nothing
  but force accumulators of targets changes.
\<close>

theorem SurfaceForce_apply_adds:
  fixes s :: "'f System"
  assumes "distinct targets" "force_blind dEval" "force_blind ddEval"
  shows "(\<forall>a \<in> set targets.
            force (heap (SurfaceForce_apply dEval ddEval targets s) a) =
              (if vec3_norm (dEval s (position (heap s a))) > 0.01
               then vec3_add (force (heap s a))
                      (vec3_div
                         (vec3_scale (- 72.75 * ddEval s (position (heap s a)))
                            (dEval s (position (heap s a))))
                         (vec3_norm (dEval s (position (heap s a)))))
               else force (heap s a)))
       \<and> (\<forall>a. a \<notin> set targets \<longrightarrow> heap (SurfaceForce_apply dEval ddEval targets s) a = heap s a)
       \<and> (\<forall>a. (heap (SurfaceForce_apply dEval ddEval targets s) a)\<lparr>force := force (heap s a)\<rparr> = heap s a)
       \<and> (SurfaceForce_apply dEval ddEval targets s)\<lparr>heap := heap s\<rparr> = s"
  using SurfaceForce_fold [OF assms(2,3,1), of s]
  by (simp add: SurfaceForce_apply_def SurfaceForce_result_def Let_def)

theorem SurfaceForce_apply_adds_witness:
  "distinct [1 :: addr, 0]
   \<and> force_blind (\<lambda>(s :: unit System) x. if at0 x > 0 then (1, 0, 0) else ((0, 0, 0) :: Vector3f))
   \<and> force_blind (\<lambda>(s :: unit System) (x :: Vector3f). 2 :: real)
   \<and> force (heap (SurfaceForce_apply (\<lambda>s x. if at0 x > 0 then (1, 0, 0) else (0, 0, 0)) (\<lambda>s x. 2) [1, 0] example_system) 1)
       = (- 145.5, 0, 0)
   \<and> force (heap (SurfaceForce_apply (\<lambda>s x. if at0 x > 0 then (1, 0, 0) else (0, 0, 0)) (\<lambda>s x. 2) [1, 0] example_system) 0)
       = (0, 0, 0)"
proof -
  have d: "distinct [1 :: addr, 0]" by simp
  have b1: "force_blind (\<lambda>(s :: unit System) x. if at0 x > 0 then (1, 0, 0) else ((0, 0, 0) :: Vector3f))"
    by (simp add: force_blind_def)
  have b2: "force_blind (\<lambda>(s :: unit System) (x :: Vector3f). 2 :: real)"
    by (simp add: force_blind_def)
  from SurfaceForce_apply_adds [OF d b1 b2, of example_system] b1 b2
  show ?thesis
    by (simp add: example_system_def example_particle_def)
qed

section \<open>Viscosity\<close>

text \<open>
  C2. The neighbour loop assigns the term of each neighbour to \<^verbatim>\<open>viscosityForce\<close>
  instead of adding it, so the amount added is the coefficient times the term of the last
  neighbour queried. With neighbours of velocity (1, 0, 0) and (0, 2, 0) around a target
  at rest the code adds (0, 200, 0); the sum the claim describes is (100, 200, 0).
\<close>

theorem ViscosityForce_apply_last_neighbour:
  "force (heap (ViscosityForce_apply (\<lambda>s x. [1, 2]) (\<lambda>r. 1) [0] example_fluid) 0) = (0, 200, 0)
   \<and> vec3_add (force (heap example_fluid 0))
        (ViscosityForce_claimed (\<lambda>s x. [1, 2]) (\<lambda>r. 1) example_fluid 0) = (100, 200, 0)"
  by (simp add: ViscosityForce_apply_def ViscosityForce_body_def ViscosityForce_term_def
      ViscosityForce_claimed_def example_fluid_def example_particle_def)

section \<open>Derivative evaluation: the phases\<close>

lemma computeDerivative_body_length: "length (computeDerivative_body s n r) = length r"
  by (simp add: computeDerivative_body_def Let_def)

lemma computeDerivative_fold_length: "length (fold (computeDerivative_body s) is r) = length r"
  by (induction "is" arbitrary: r) (simp_all add: computeDerivative_body_length)

lemma computeDerivative_body_nth_below: "j < n * 6 \<Longrightarrow> computeDerivative_body s n r ! j = r ! j"
  by (simp add: computeDerivative_body_def Let_def)

lemma computeDerivative_body_nth_here:
  "n * 6 + 5 < length r \<Longrightarrow> k < 6 \<Longrightarrow>
   computeDerivative_body s n r ! (n * 6 + k) = deriv_slot (heap s (particles s ! n)) k"
proof -
  assume b: "n * 6 + 5 < length r" and "k < 6"
  then have "k = 0 \<or> k = 1 \<or> k = 2 \<or> k = 3 \<or> k = 4 \<or> k = 5" by arith
  then show ?thesis using b
    by (elim disjE) (simp_all add: computeDerivative_body_def Let_def deriv_slot_def)
qed

lemma computeDerivative_fold_nth:
  "6 * n \<le> length r \<Longrightarrow> j < 6 * n \<Longrightarrow>
   fold (computeDerivative_body s) [0..<n] r ! j = deriv_slot (heap s (particles s ! (j div 6))) (j mod 6)"
proof (induction n arbitrary: j)
  case 0
  then show ?case by simp
next
  case (Suc n)
  let ?r = "fold (computeDerivative_body s) [0..<n] r"
  have len: "length ?r = length r" by (rule computeDerivative_fold_length)
  show ?case
  proof (cases "j < 6 * n")
    case True
    with Suc have "?r ! j = deriv_slot (heap s (particles s ! (j div 6))) (j mod 6)" by simp
    with True show ?thesis by (simp add: computeDerivative_body_nth_below mult.commute)
  next
    case False
    with Suc.prems have d: "j div 6 = n" by simp
    have m: "j = n * 6 + j mod 6" "j mod 6 < 6" using d div_mult_mod_eq [of j 6] by simp_all
    from Suc.prems len have b: "n * 6 + 5 < length ?r" by simp
    have "computeDerivative_body s n ?r ! (n * 6 + j mod 6) = deriv_slot (heap s (particles s ! n)) (j mod 6)"
      using b m(2) by (rule computeDerivative_body_nth_here)
    then show ?thesis using d m(1) by simp
  qed
qed

lemma computeDerivative_length: "length (computeDerivative s) = 6 * length (particles s)"
  by (simp add: computeDerivative_def computeDerivative_fold_length getDim_def)

lemma computeDerivative_nth:
  "i < length (particles s) \<Longrightarrow> k < 6 \<Longrightarrow>
   computeDerivative s ! (i * 6 + k) = deriv_slot (heap s (particles s ! i)) k"
  unfolding computeDerivative_def
  using computeDerivative_fold_nth [of "length (particles s)" "replicate (getDim s) 0" "i * 6 + k" s]
  by (simp add: getDim_def)

lemma clearForces_fold:
  fixes t :: "'f System"
  shows "heap (fold clearForces_body ps t)
         = (\<lambda>a. if a \<in> set ps then (heap t a)\<lparr>force := (0, 0, 0)\<rparr> else heap t a)
       \<and> (fold clearForces_body ps t)\<lparr>heap := heap t\<rparr> = t"
proof (induction ps arbitrary: t)
  case Nil
  then show ?case by simp
next
  case (Cons p ps)
  let ?t1 = "clearForces_body p t"
  let ?F = "fold clearForces_body ps ?t1"
  from Cons.IH [of ?t1] have h: "heap ?F = (\<lambda>a. if a \<in> set ps then (heap ?t1 a)\<lparr>force := (0, 0, 0)\<rparr> else heap ?t1 a)"
    and r: "?F\<lparr>heap := heap ?t1\<rparr> = ?t1" by blast+
  have "heap ?F = (\<lambda>a. if a \<in> set (p # ps) then (heap t a)\<lparr>force := (0, 0, 0)\<rparr> else heap t a)"
    unfolding h by (auto simp: fun_eq_iff clearForces_body_def)
  moreover have "?F\<lparr>heap := heap t\<rparr> = t"
  proof -
    have "?F\<lparr>heap := heap t\<rparr> = (?F\<lparr>heap := heap ?t1\<rparr>)\<lparr>heap := heap t\<rparr>" by simp
    also have "\<dots> = ?t1\<lparr>heap := heap t\<rparr>" by (simp only: r)
    also have "\<dots> = t" by (simp add: clearForces_body_def)
    finally show ?thesis .
  qed
  ultimately show ?case by simp
qed

lemma clearForces_heap:
  "heap (clearForces s) a = (if a \<in> set (particles s) then (heap s a)\<lparr>force := (0, 0, 0)\<rparr> else heap s a)"
  using clearForces_fold [of "particles s" s] by (simp add: clearForces_def)

lemma clearForces_rest: "(clearForces s)\<lparr>heap := heap s\<rparr> = s"
  using clearForces_fold [of "particles s" s] by (simp add: clearForces_def)

lemma rest_fields:
  fixes t t' :: "'f System"
  assumes "t'\<lparr>heap := heap t\<rparr> = t"
  shows "particles t' = particles t" "forces t' = forces t" "time t' = time t" "dt t' = dt t"
proof -
  have "particles (t'\<lparr>heap := heap t\<rparr>) = particles t'" "forces (t'\<lparr>heap := heap t\<rparr>) = forces t'"
       "time (t'\<lparr>heap := heap t\<rparr>) = time t'" "dt (t'\<lparr>heap := heap t\<rparr>) = dt t'" by simp_all
  then show "particles t' = particles t" "forces t' = forces t" "time t' = time t" "dt t' = dt t"
    by (simp_all only: assms)
qed


lemma density_fold:
  fixes t :: "'f System"
  assumes "density_blind E"
  shows "\<exists>t'. fold (computeForces_density E) ps (t, r) = (t', r + sum_list (map (E t) ps))
           \<and> heap t' = (\<lambda>a. if a \<in> set ps then (heap t a)\<lparr>density := E t a\<rparr> else heap t a)
           \<and> t'\<lparr>heap := heap t\<rparr> = t"
proof (induction ps arbitrary: t r)
  case Nil
  then show ?case by simp
next
  case (Cons p ps)
  let ?t1 = "t\<lparr>heap := (heap t)(p := (heap t p)\<lparr>density := E t p\<rparr>)\<rparr>"
  have step: "computeForces_density E p (t, r) = (?t1, r + E t p)"
    by (simp add: computeForces_density_def Let_def)
  have E1: "E ?t1 = E t" using assms unfolding density_blind_def by blast
  from Cons.IH [of ?t1 "r + E t p"] obtain t' where
    f: "fold (computeForces_density E) ps (?t1, r + E t p) = (t', r + E t p + sum_list (map (E ?t1) ps))"
    and h: "heap t' = (\<lambda>a. if a \<in> set ps then (heap ?t1 a)\<lparr>density := E ?t1 a\<rparr> else heap ?t1 a)"
    and e: "t'\<lparr>heap := heap ?t1\<rparr> = ?t1" by blast
  have "fold (computeForces_density E) (p # ps) (t, r) = (t', r + sum_list (map (E t) (p # ps)))"
    using f step by (simp add: E1 add.assoc)
  moreover have "heap t' = (\<lambda>a. if a \<in> set (p # ps) then (heap t a)\<lparr>density := E t a\<rparr> else heap t a)"
    unfolding h E1 by (auto simp: fun_eq_iff)
  moreover have "t'\<lparr>heap := heap t\<rparr> = t"
  proof -
    have "t'\<lparr>heap := heap t\<rparr> = (t'\<lparr>heap := heap ?t1\<rparr>)\<lparr>heap := heap t\<rparr>" by simp
    also have "\<dots> = ?t1\<lparr>heap := heap t\<rparr>" by (simp only: e)
    also have "\<dots> = t" by simp
    finally show ?thesis .
  qed
  ultimately show ?case by blast
qed

lemma pressure_fold:
  fixes t :: "'f System"
  shows "heap (fold (computeForces_pressure k rd) ps t)
           = (\<lambda>a. if a \<in> set ps then (heap t a)\<lparr>pressure := k * (density (heap t a) - rd)\<rparr> else heap t a)
       \<and> (fold (computeForces_pressure k rd) ps t)\<lparr>heap := heap t\<rparr> = t"
proof (induction ps arbitrary: t)
  case Nil
  then show ?case by simp
next
  case (Cons p ps)
  let ?t1 = "computeForces_pressure k rd p t"
  let ?F = "fold (computeForces_pressure k rd) ps ?t1"
  from Cons.IH [of ?t1] have h: "heap ?F = (\<lambda>a. if a \<in> set ps
        then (heap ?t1 a)\<lparr>pressure := k * (density (heap ?t1 a) - rd)\<rparr> else heap ?t1 a)"
    and r: "?F\<lparr>heap := heap ?t1\<rparr> = ?t1" by blast+
  have "heap ?F = (\<lambda>a. if a \<in> set (p # ps)
        then (heap t a)\<lparr>pressure := k * (density (heap t a) - rd)\<rparr> else heap t a)"
    unfolding h by (auto simp: fun_eq_iff computeForces_pressure_def)
  moreover have "?F\<lparr>heap := heap t\<rparr> = t"
  proof -
    have "?F\<lparr>heap := heap t\<rparr> = (?F\<lparr>heap := heap ?t1\<rparr>)\<lparr>heap := heap t\<rparr>" by simp
    also have "\<dots> = ?t1\<lparr>heap := heap t\<rparr>" by (simp only: r)
    also have "\<dots> = t" by (simp add: computeForces_pressure_def)
    finally show ?thesis .
  qed
  ultimately show ?case by simp
qed

lemma fold_keeps_particles:
  fixes t :: "'f System"
  assumes "\<forall>f t. particles (A f t) = particles t"
  shows "particles (fold A fs t) = particles t"
  using assms by (induction fs arbitrary: t) simp_all

lemma computeForces_phases:
  fixes s :: "'f System"
  assumes "density_blind E"
  shows "\<exists>sp. computeForces E A s = fold A (forces s) sp
           \<and> heap sp = (\<lambda>a. if a \<in> set (particles s)
                then (heap s a)\<lparr>density := E s a,
                       pressure := 0.1 * (E s a - sum_list (map (E s) (particles s)) / real (length (particles s)))\<rparr>
                else heap s a)
           \<and> sp\<lparr>heap := heap s\<rparr> = s"
proof -
  from density_fold [OF assms, of "particles s" s 0] obtain s1 where
    f: "fold (computeForces_density E) (particles s) (s, 0) = (s1, sum_list (map (E s) (particles s)))"
    and h1: "heap s1 = (\<lambda>a. if a \<in> set (particles s) then (heap s a)\<lparr>density := E s a\<rparr> else heap s a)"
    and e1: "s1\<lparr>heap := heap s\<rparr> = s" by auto
  have p1: "particles s1 = particles s" "forces s1 = forces s" using rest_fields [OF e1] by simp_all
  let ?rd = "sum_list (map (E s) (particles s)) / real (length (particles s))"
  let ?s2 = "fold (computeForces_pressure 0.1 ?rd) (particles s) s1"
  from pressure_fold [of "0.1" ?rd "particles s" s1]
  have h2: "heap ?s2 = (\<lambda>a. if a \<in> set (particles s)
        then (heap s1 a)\<lparr>pressure := 0.1 * (density (heap s1 a) - ?rd)\<rparr> else heap s1 a)"
    and e2: "?s2\<lparr>heap := heap s1\<rparr> = s1" by blast+
  have p2: "forces ?s2 = forces s" using rest_fields(2) [OF e2] p1 by simp
  have "computeForces E A s = fold A (forces s) ?s2"
    using f p1 p2 by (simp add: computeForces_def Let_def)
  moreover have "heap ?s2 = (\<lambda>a. if a \<in> set (particles s)
                then (heap s a)\<lparr>density := E s a, pressure := 0.1 * (E s a - ?rd)\<rparr>
                else heap s a)"
    unfolding h2 h1 by (auto simp: fun_eq_iff)
  moreover have "?s2\<lparr>heap := heap s\<rparr> = s"
  proof -
    have "?s2\<lparr>heap := heap s\<rparr> = (?s2\<lparr>heap := heap s1\<rparr>)\<lparr>heap := heap s\<rparr>" by simp
    also have "\<dots> = s1\<lparr>heap := heap s\<rparr>" by (simp only: e2)
    also have "\<dots> = s" by (rule e1)
    finally show ?thesis .
  qed
  ultimately show ?thesis by blast
qed

text \<open>
  C3. For a System with at least one particle and a Density field that does not read
  stored densities, \<^verbatim>\<open>derivEval\<close> brings the System to a state \<open>sp\<close> in which every
  registered particle has a zero force accumulator, the density the field gives it, and
  the pressure \<open>0.1 * (density - restDensity)\<close> with \<open>restDensity\<close> the mean of those
  densities, and in which nothing else differs from the start; it then applies the
  registered forces in registration order, and returns a vector of six slots per particle
  (\<open>6N\<close> slots when the forces leave the list of particles alone): the velocity, then
  (where the density is not zero) the accumulated force divided by the density.
\<close>

theorem derivEval_pipeline:
  fixes s :: "'f System"
  assumes "particles s \<noteq> []" "density_blind E"
  shows "\<exists>sp.
       (\<forall>a \<in> set (particles s). heap sp a = (heap s a)
            \<lparr>force := (0, 0, 0),
             density := E (clearForces s) a,
             pressure := 0.1 * (E (clearForces s) a
                - sum_list (map (E (clearForces s)) (particles s)) / real (length (particles s)))\<rparr>)
     \<and> (\<forall>a. a \<notin> set (particles s) \<longrightarrow> heap sp a = heap s a)
     \<and> sp\<lparr>heap := heap s\<rparr> = s
     \<and> snd (derivEval E A s) = fold A (forces s) sp
     \<and> ((\<forall>f t. particles (A f t) = particles t) \<longrightarrow>
           particles (snd (derivEval E A s)) = particles s)
     \<and> length (fst (derivEval E A s)) = 6 * length (particles (snd (derivEval E A s)))
     \<and> (\<forall>i < length (particles (snd (derivEval E A s))).
          (let p = heap (snd (derivEval E A s)) (particles (snd (derivEval E A s)) ! i);
               dst = fst (derivEval E A s)
           in dst ! (i * 6 + 0) = at0 (velocity p)
            \<and> dst ! (i * 6 + 1) = at1 (velocity p)
            \<and> dst ! (i * 6 + 2) = at2 (velocity p)
            \<and> (density p \<noteq> 0 \<longrightarrow>
                 dst ! (i * 6 + 3) = at0 (force p) / density p
               \<and> dst ! (i * 6 + 4) = at1 (force p) / density p
               \<and> dst ! (i * 6 + 5) = at2 (force p) / density p)))"
proof -
  let ?s0 = "clearForces s"
  have e0: "?s0\<lparr>heap := heap s\<rparr> = s" by (rule clearForces_rest)
  have p0: "particles ?s0 = particles s" "forces ?s0 = forces s" using rest_fields [OF e0] by simp_all
  from computeForces_phases [OF assms(2), of A ?s0] obtain sp where
    c: "computeForces E A ?s0 = fold A (forces ?s0) sp"
    and h: "heap sp = (\<lambda>a. if a \<in> set (particles ?s0)
                then (heap ?s0 a)\<lparr>density := E ?s0 a,
                       pressure := 0.1 * (E ?s0 a - sum_list (map (E ?s0) (particles ?s0)) / real (length (particles ?s0)))\<rparr>
                else heap ?s0 a)"
    and e: "sp\<lparr>heap := heap ?s0\<rparr> = ?s0" by blast
  have 1: "\<forall>a \<in> set (particles s). heap sp a = (heap s a)
            \<lparr>force := (0, 0, 0),
             density := E ?s0 a,
             pressure := 0.1 * (E ?s0 a - sum_list (map (E ?s0) (particles s)) / real (length (particles s)))\<rparr>"
    unfolding h p0 by (simp add: clearForces_heap)
  have 2: "\<forall>a. a \<notin> set (particles s) \<longrightarrow> heap sp a = heap s a"
    unfolding h p0 by (simp add: clearForces_heap)
  have 3: "sp\<lparr>heap := heap s\<rparr> = s"
  proof -
    have "sp\<lparr>heap := heap s\<rparr> = (sp\<lparr>heap := heap ?s0\<rparr>)\<lparr>heap := heap s\<rparr>" by simp
    also have "\<dots> = ?s0\<lparr>heap := heap s\<rparr>" by (simp only: e)
    also have "\<dots> = s" by (rule e0)
    finally show ?thesis .
  qed
  have d: "derivEval E A s = (computeDerivative (fold A (forces s) sp), fold A (forces s) sp)"
    using c p0 by (simp add: derivEval_def Let_def)
  let ?s' = "fold A (forces s) sp"
  have 4: "(\<forall>f t. particles (A f t) = particles t) \<longrightarrow> particles ?s' = particles s"
    using rest_fields(1) [OF 3] by (simp add: fold_keeps_particles)
  have 5: "length (computeDerivative ?s') = 6 * length (particles ?s')"
    by (rule computeDerivative_length)
  have 6: "computeDerivative ?s' ! (i * 6 + k) = deriv_slot (heap ?s' (particles ?s' ! i)) k"
    if "i < length (particles ?s')" "k < 6" for i k
    using that by (rule computeDerivative_nth)
  have 7: "(let p = heap ?s' (particles ?s' ! i); dst = computeDerivative ?s'
           in dst ! (i * 6 + 0) = at0 (velocity p)
            \<and> dst ! (i * 6 + 1) = at1 (velocity p)
            \<and> dst ! (i * 6 + 2) = at2 (velocity p)
            \<and> (density p \<noteq> 0 \<longrightarrow>
                 dst ! (i * 6 + 3) = at0 (force p) / density p
               \<and> dst ! (i * 6 + 4) = at1 (force p) / density p
               \<and> dst ! (i * 6 + 5) = at2 (force p) / density p))"
    if "i < length (particles ?s')" for i
    unfolding Let_def
    using 6 [OF that, of 0] 6 [OF that, of 1] 6 [OF that, of 2]
      6 [OF that, of 3] 6 [OF that, of 4] 6 [OF that, of 5]
    by (simp add: deriv_slot_def)
  show ?thesis
    unfolding d fst_conv snd_conv using 1 2 3 4 5 7 by blast
qed

theorem derivEval_pipeline_witness:
  "particles example_forced \<noteq> [] \<and> density_blind example_density
   \<and> force (heap (snd (derivEval example_density example_gravity example_forced)) 0) = (0, 0, 0)
   \<and> force (heap (snd (derivEval example_density example_gravity example_forced)) 1) = (0, - 9.8, 0)
   \<and> density (heap (snd (derivEval example_density example_gravity example_forced)) 1) = 3
   \<and> pressure (heap (snd (derivEval example_density example_gravity example_forced)) 1) = 0.1
   \<and> length (fst (derivEval example_density example_gravity example_forced)) = 12"
proof -
  have n: "particles example_forced \<noteq> []" by (simp add: example_forced_def)
  have b: "density_blind example_density" by (simp add: density_blind_def example_density_def fun_eq_iff)
  have c: "heap (clearForces example_forced) a
           = (if a = 0 \<or> a = 1 then (heap example_forced a)\<lparr>force := (0, 0, 0)\<rparr> else heap example_forced a)" for a
    by (simp add: clearForces_heap example_forced_def)
  from derivEval_pipeline [OF n b, of example_gravity] obtain sp where
    h: "\<forall>a \<in> set (particles example_forced). heap sp a = (heap example_forced a)
            \<lparr>force := (0, 0, 0),
             density := example_density (clearForces example_forced) a,
             pressure := 0.1 * (example_density (clearForces example_forced) a
                - sum_list (map (example_density (clearForces example_forced)) (particles example_forced))
                  / real (length (particles example_forced)))\<rparr>"
    and s': "snd (derivEval example_density example_gravity example_forced) = fold example_gravity (forces example_forced) sp"
    and l: "length (fst (derivEval example_density example_gravity example_forced))
            = 6 * length (particles (snd (derivEval example_density example_gravity example_forced)))"
    and r: "sp\<lparr>heap := heap example_forced\<rparr> = example_forced"
    by blast
  have p: "particles sp = particles example_forced" "forces sp = forces example_forced"
    using rest_fields [OF r] by simp_all
  have h0: "heap sp 0 = (example_particle (0, 0, 0) (0, 0, 0) False)\<lparr>pressure := - 0.1\<rparr>"
    and h1: "heap sp (Suc 0) = (example_particle (0.1, 0, 0) (1, 0, 0) True)\<lparr>density := 3, pressure := 0.1\<rparr>"
  proof -
    have ed: "example_density (clearForces example_forced) 0 = 1"
      "example_density (clearForces example_forced) 1 = 3"
      "example_density (clearForces example_forced) (Suc 0) = 3"
      by (simp_all add: example_density_def c) (simp_all add: example_forced_def example_particle_def)
    have ps: "particles example_forced = [0, 1]" by (simp add: example_forced_def)
    from h have "heap sp 0 = (heap example_forced 0)\<lparr>force := (0, 0, 0), density := 1, pressure := 0.1 * (1 - (1 + 3) / 2)\<rparr>"
      and "heap sp 1 = (heap example_forced 1)\<lparr>force := (0, 0, 0), density := 3, pressure := 0.1 * (3 - (1 + 3) / 2)\<rparr>"
      unfolding ps by (simp_all add: ed)
    then show "heap sp 0 = (example_particle (0, 0, 0) (0, 0, 0) False)\<lparr>pressure := - 0.1\<rparr>"
      and "heap sp (Suc 0) = (example_particle (0.1, 0, 0) (1, 0, 0) True)\<lparr>density := 3, pressure := 0.1\<rparr>"
      by (simp_all add: example_forced_def example_particle_def)
  qed
  have g: "fold example_gravity (forces example_forced) sp
           = sp\<lparr>heap := (heap sp)(1 := (heap sp 1)\<lparr>force := vec3_add (force (heap sp 1)) (0, - 9.8 * mass (heap sp 1), 0)\<rparr>)\<rparr>"
    by (simp add: example_forced_def example_gravity_def)
  show ?thesis
    using n b l unfolding s' g by (simp add: h0 h1 p example_particle_def) (simp add: example_forced_def)
qed

text \<open>
  C4, as stated, fails: with a force registered on a particle that a System without
  particles does not hold, the force's \<^verbatim>\<open>apply\<close> runs inside \<^verbatim>\<open>derivEval\<close> and changes
  that particle's accumulator, so the call is not a no-op.
\<close>

theorem derivEval_empty_runs_forces:
  "particles example_empty = []
   \<and> force (heap example_empty 1) = (0, 0, 0)
   \<and> force (heap (snd (derivEval example_density example_gravity example_empty)) 1) = (0, - 9.8, 0)
   \<and> snd (derivEval example_density example_gravity example_empty) \<noteq> example_empty"
proof -
  have f: "force (heap (snd (derivEval example_density example_gravity example_empty)) 1) = (0, - 9.8, 0)"
    by (simp add: derivEval_def computeForces_def clearForces_def example_empty_def
        example_gravity_def example_particle_def Let_def)
  have z: "force (heap example_empty 1) = (0, 0, 0)"
    by (simp add: example_empty_def example_particle_def)
  from f z have "snd (derivEval example_density example_gravity example_empty) \<noteq> example_empty"
    by auto
  with f z show ?thesis by (simp add: example_empty_def)
qed

text \<open>
  C4. With zero particles the loops of \<^verbatim>\<open>derivEval\<close> touch nothing, but force computation
  is not skipped: every registered force is applied, in registration order, to the System
  as it was. The returned vector is empty when those forces leave the particle list
  empty, and with no force registered \<^verbatim>\<open>derivEval\<close> changes nothing.
\<close>

theorem derivEval_empty:
  fixes s :: "'f System"
  assumes "particles s = []"
  shows "snd (derivEval E A s) = fold A (forces s) s
       \<and> (particles (fold A (forces s) s) = [] \<longrightarrow> fst (derivEval E A s) = [])
       \<and> (forces s = [] \<longrightarrow> derivEval E A s = ([], s))"
proof -
  have c: "clearForces s = s" using assms by (simp add: clearForces_def)
  have f: "computeForces E A s = fold A (forces s) s"
    using assms by (simp add: computeForces_def Let_def)
  have e: "computeDerivative t = []" if "particles t = []" for t :: "'f System"
    using that by (simp add: computeDerivative_def getDim_def)
  show ?thesis using assms e [of "fold A (forces s) s"] e [of s]
    by (simp add: derivEval_def c f Let_def)
qed

theorem derivEval_empty_witness:
  "particles example_empty = []
   \<and> snd (derivEval example_density example_gravity example_empty)
       = fold example_gravity (forces example_empty) example_empty
   \<and> fst (derivEval example_density example_gravity example_empty) = []"
  using derivEval_empty [of example_empty example_density example_gravity]
  by (simp add: example_empty_def example_gravity_def)

section \<open>The step controller: error control and the snapshot\<close>






lemma setState_rest:
  fixes s :: "'f System"
  assumes "setState s src = Some s'"
  shows "s'\<lparr>heap := heap s\<rparr> = s"
proof -
  from assms obtain t where t: "for_loop (setState_body src) [0..<length (particles s)] s = Some t"
    and s': "s' = t\<lparr>time := time s\<rparr>"
    by (auto simp: setState_def setState2_def getTime_def split: bind_splits)
  have "t\<lparr>heap := heap s\<rparr> = s"
  proof (rule for_loop_invariant [OF t, where P = "\<lambda>t. t\<lparr>heap := heap s\<rparr> = s"])
    show "s\<lparr>heap := heap s\<rparr> = s" by simp
  next
    fix i and u u' :: "'f System"
    assume u: "u\<lparr>heap := heap s\<rparr> = s" and b: "setState_body src i u = Some u'"
    from b have "u' = u \<or> (\<exists>h. u' = u\<lparr>heap := h\<rparr>)"
      by (auto simp: setState_body_def Let_def split: if_splits bind_splits)
    then have "u'\<lparr>heap := heap s\<rparr> = u\<lparr>heap := heap s\<rparr>" by auto
    with u show "u'\<lparr>heap := heap s\<rparr> = s" by simp
  qed
  then have r: "t\<lparr>heap := heap s\<rparr> = s" .
  have "s'\<lparr>heap := heap s\<rparr> = (t\<lparr>heap := heap s\<rparr>)\<lparr>time := time s\<rparr>" by (simp add: s')
  also have "\<dots> = s\<lparr>time := time s\<rparr>" by (simp only: r)
  also have "\<dots> = s" by simp
  finally show ?thesis .
qed

lemma vecX_norm_euclid:
  assumes "vecX_sub a b = Some d"
  shows "length a = length b" and "vecX_norm d = sqrt (\<Sum>i<length a. (a ! i - b ! i)\<^sup>2)"
proof -
  from assms show l: "length a = length b" by (simp add: vecX_sub_def split: if_splits)
  from assms l have d: "d = map2 (-) a b" by (simp add: vecX_sub_def)
  have "sum_list (map (\<lambda>x. x * x) d) = (\<Sum>i = 0..<length d. map (\<lambda>x. x * x) d ! i)"
    using sum_list_sum_nth [of "map (\<lambda>x. x * x) d"] by simp
  also have "\<dots> = (\<Sum>i = 0..<length a. (a ! i - b ! i)\<^sup>2)"
    using l by (intro sum.cong) (simp_all add: d power2_eq_square)
  finally show "vecX_norm d = sqrt (\<Sum>i<length a. (a ! i - b ! i)\<^sup>2)"
    by (simp add: vecX_norm_def lessThan_atLeast0)
qed



text \<open>
  C5. When the adaptive block returns, its error is the Euclidean norm of the difference
  between the state vector after one step of size \<open>dt\<close> and the state vector after two
  steps of size \<open>dt / 2\<close> from the restored snapshot. If the error is positive, the step
  size handed to the accepted step is the step size held at that point times
  \<open>(0.001 / error) powr 0.5\<close>; if the error is zero it is that step size unchanged. The
  step size held at that point is the one at the start when the Solver does not change it.
\<close>

theorem step_adaptive_error_control:
  fixes s :: "'f System"
  assumes "step_adaptive sim s = Some s6"
  shows "\<exists>s2. setState (sim s (dt s)) (getState s) = Some s2 \<and>
          (let xa = getState (sim s (dt s));
               s4 = sim (sim s2 (dt s2 / 2)) (dt (sim s2 (dt s2 / 2)) / 2);
               xb = getState s4;
               err = sqrt (\<Sum>i<length xa. (xa ! i - xb ! i)\<^sup>2)
           in length xa = length xb
            \<and> (0 < err \<longrightarrow> dt s6 = dt s4 * (0.001 / err) powr 0.5)
            \<and> (err = 0 \<longrightarrow> dt s6 = dt s4)
            \<and> (0 < err \<or> err = 0)
            \<and> ((\<forall>t h. dt (sim t h) = dt t) \<longrightarrow> dt s4 = dt s))
          \<and> step sim True s = Some (sim s6 (dt s6))"
proof -
  let ?s1 = "sim s (dt s)"
  from assms obtain s2 where s2: "setState ?s1 (getState s) = Some s2"
    by (auto simp: step_adaptive_def Let_def split: bind_splits)
  let ?s3 = "sim s2 (dt s2 / 2)"
  let ?s4 = "sim ?s3 (dt ?s3 / 2)"
  from assms s2 obtain d where d: "vecX_sub (getState ?s1) (getState ?s4) = Some d"
    by (auto simp: step_adaptive_def Let_def split: bind_splits)
  let ?xa = "getState ?s1" and ?xb = "getState ?s4"
  let ?err = "sqrt (\<Sum>i<length ?xa. (?xa ! i - ?xb ! i)\<^sup>2)"
  note e = vecX_norm_euclid [OF d]
  let ?s5 = "if ?err > 0 then ?s4\<lparr>dt := dt ?s4 * (0.001 / ?err) powr 0.5\<rparr> else ?s4"
  from assms s2 d have "setState (if vecX_norm d > 0
        then ?s4\<lparr>dt := dt ?s4 * (0.001 / vecX_norm d) powr 0.5\<rparr> else ?s4) (getState s) = Some s6"
    by (simp add: step_adaptive_def Let_def)
  then have s6: "setState ?s5 (getState s) = Some s6" by (simp only: e(2))
  have dt6: "dt s6 = dt ?s5" using rest_fields(4) [OF setState_rest [OF s6]] .
  have dt2: "dt s2 = dt ?s1" using rest_fields(4) [OF setState_rest [OF s2]] .
  have nn: "0 \<le> ?err" by (simp add: sum_nonneg)
  have "length ?xa = length ?xb" by (rule e(1))
  moreover have "0 < ?err \<longrightarrow> dt s6 = dt ?s4 * (0.001 / ?err) powr 0.5" using dt6 by simp
  moreover have "?err = 0 \<longrightarrow> dt s6 = dt ?s4" using dt6 by simp
  moreover have "0 < ?err \<or> ?err = 0" using nn by (simp only: le_less) auto
  moreover have "(\<forall>t h. dt (sim t h) = dt t) \<longrightarrow> dt ?s4 = dt s" using dt2 by simp
  moreover have "step sim True s = Some (sim s6 (dt s6))" using assms by (simp add: step_def)
  ultimately show ?thesis using s2 unfolding Let_def by blast
qed

theorem step_adaptive_error_control_witness:
  "\<exists>s6. step_adaptive example_solver (example_single\<lparr>dt := 2\<rparr>) = Some s6
      \<and> step example_solver True (example_single\<lparr>dt := 2\<rparr>) = Some (example_solver s6 (dt s6))
      \<and> dt s6 = 2 * (0.001 / 1) powr 0.5"
proof -
  let ?ex = "example_single\<lparr>dt := 2\<rparr>"
  have "\<exists>s6. step_adaptive example_solver ?ex = Some s6"
    by (simp add: step_adaptive_def setState_def setState2_def setState_body_def getTime_def
        vget_def getState_def getState_body_def getDim_def example_solver_def example_single_def
        example_particle_def vecX_sub_def vecX_norm_def eval_nat_numeral Let_def)
  then obtain s6 where h: "step_adaptive example_solver ?ex = Some s6" by blast
  from step_adaptive_error_control [OF h] obtain s2 where
    s2: "setState (example_solver ?ex (dt ?ex)) (getState ?ex) = Some s2"
    and L: "let xa = getState (example_solver ?ex (dt ?ex));
               s4 = example_solver (example_solver s2 (dt s2 / 2)) (dt (example_solver s2 (dt s2 / 2)) / 2);
               xb = getState s4;
               err = sqrt (\<Sum>i<length xa. (xa ! i - xb ! i)\<^sup>2)
           in length xa = length xb
            \<and> (0 < err \<longrightarrow> dt s6 = dt s4 * (0.001 / err) powr 0.5)
            \<and> (err = 0 \<longrightarrow> dt s6 = dt s4)
            \<and> (0 < err \<or> err = 0)
            \<and> ((\<forall>t h. dt (example_solver t h) = dt t) \<longrightarrow> dt s4 = dt ?ex)"
    and st: "step example_solver True ?ex = Some (example_solver s6 (dt s6))"
    by blast
  have xa: "getState (example_solver ?ex (dt ?ex)) = [2, 0, 0, 0, 0, 0]"
    by (simp add: getState_def getState_body_def getDim_def example_solver_def example_single_def
        example_particle_def eval_nat_numeral)
  have v2: "s2 = (example_single\<lparr>dt := 2\<rparr>)\<lparr>time := 2\<rparr>"
    using s2
    by (auto simp: setState_def setState2_def setState_body_def getTime_def
        vget_def getState_def getState_body_def getDim_def example_solver_def example_single_def
        example_particle_def eval_nat_numeral Let_def fun_eq_iff cong: if_cong)
  have xb: "getState (example_solver (example_solver s2 (dt s2 / 2)) (dt (example_solver s2 (dt s2 / 2)) / 2))
            = [1, 0, 0, 0, 0, 0]"
    unfolding v2
    by (simp add: getState_def getState_body_def getDim_def example_solver_def example_single_def
        example_particle_def eval_nat_numeral)
  have d4: "dt (example_solver (example_solver s2 (dt s2 / 2)) (dt (example_solver s2 (dt s2 / 2)) / 2)) = 2"
    unfolding v2 by (simp add: example_solver_def)
  have err: "sqrt (\<Sum>i<length [2, 0, 0, 0, 0, 0 :: real]. ([2, 0, 0, 0, 0, 0] ! i - [1, 0, 0, 0, 0, 0 :: real] ! i)\<^sup>2) = 1"
    by (simp add: lessThan_Suc eval_nat_numeral)
  from L have "dt s6 = 2 * (0.001 / 1) powr 0.5"
    unfolding Let_def xa xb d4 err by simp
  with h st show ?thesis by blast
qed




end
